theory Spec2Isabelle
  imports Complex_Main
begin

section \<open>Tensor operations used by the evaluation phase\<close>

text \<open>
  The trainer of \<^verbatim>\<open>train_hypernetwork.py\<close> works on tensors of class logits. A tensor
  of shape \<^verbatim>\<open>[N, B, D]\<close> is a list of \<^verbatim>\<open>N\<close> members, each a list of \<^verbatim>\<open>B\<close> rows, each a
  list of \<^verbatim>\<open>D\<close> logits. Tensor entries are idealised as real numbers: rounding, overflow
  and NaN of the 32-bit floats are outside the model. Class labels and targets are
  natural numbers.
\<close>

type_synonym logits = "real list"
type_synonym tensor2 = "real list list"
type_synonym tensor3 = "real list list list"

datatype py_error =
    AttributeError
  | UnboundLocalError
  | ZeroDivisionError
  | RuntimeError
  | IndexError
  | ValueError

text \<open>\<^verbatim>\<open>F.softmax(outputs, dim=-1)\<close> on one row of logits.\<close>

definition softmax :: "logits \<Rightarrow> real list" where
  "softmax xs = map (\<lambda>x. exp x / sum_list (map exp xs)) xs"

text \<open>
  \<^verbatim>\<open>argmax(-1)\<close> on one row: the index of the maximal entry, the first one where the
  maximum occurs several times. The scan keeps the best index and value seen so far
  and replaces them only by a strictly larger entry. The empty row (on which the
  library raises) is guarded where \<open>argmax\<close> is called.
\<close>

fun argmax_acc :: "real list \<Rightarrow> nat \<Rightarrow> nat \<Rightarrow> real \<Rightarrow> nat" where
  "argmax_acc [] i bi bv = bi"
| "argmax_acc (x # xs) i bi bv =
     (if bv < x then argmax_acc xs (Suc i) i x else argmax_acc xs (Suc i) bi bv)"

definition argmax :: "real list \<Rightarrow> nat" where
  "argmax xs = (case xs of [] \<Rightarrow> 0 | x # rest \<Rightarrow> argmax_acc rest 1 0 x)"

text \<open>
  Modelled from the spec: \<^verbatim>\<open>Tensor.mode\<close> is library code and not part of the
  repository's sources. The spec fixes its result as the majority label, "ties broken
  by the underlying mode computation's lowest-label convention": the labels are visited
  in ascending order and the candidate is replaced only by a label that occurs strictly
  more often.
\<close>

fun mode_pick :: "nat list \<Rightarrow> nat list \<Rightarrow> nat \<Rightarrow> nat" where
  "mode_pick xs [] best = best"
| "mode_pick xs (v # vs) best =
     mode_pick xs vs (if count_list xs best < count_list xs v then v else best)"

definition mode_label :: "nat list \<Rightarrow> nat" where
  "mode_label xs = (case sort xs of [] \<Rightarrow> 0 | v # vs \<Rightarrow> mode_pick xs vs v)"

text \<open>\<^verbatim>\<open>probs.mean(0)\<close>: the entrywise mean over the members of a \<^verbatim>\<open>[n, B, D]\<close> tensor.\<close>

definition add2 :: "tensor2 \<Rightarrow> tensor2 \<Rightarrow> tensor2" where
  "add2 a b = map2 (map2 (+)) a b"

definition mean0 :: "tensor3 \<Rightarrow> tensor2" where
  "mean0 ps = (case ps of [] \<Rightarrow> []
     | p # rest \<Rightarrow> map (map (\<lambda>x. x / real (length ps))) (foldl add2 p rest))"

text \<open>
  The two branches of lines 221-229 of \<^verbatim>\<open>test\<close>, on the truncated outputs
  \<^verbatim>\<open>[n, B, D]\<close>. Any other vote string leaves the local variable \<^verbatim>\<open>vote\<close> unassigned,
  and line 231 then raises \<^verbatim>\<open>UnboundLocalError\<close>. A row without classes makes
  \<^verbatim>\<open>argmax\<close> raise.
\<close>

definition soft_vote :: "tensor3 \<Rightarrow> nat list" where
  "soft_vote outputs =
     (let probs = map (map softmax) outputs;
          preds = mean0 probs
      in map argmax preds)"

definition hard_vote :: "tensor3 \<Rightarrow> nat list" where
  "hard_vote outputs =
     (let probs = map (map softmax) outputs;
          preds = map (map argmax) probs
      in map mode_label (transpose preds))"

definition has_empty_row :: "tensor3 \<Rightarrow> bool" where
  "has_empty_row outputs = list_ex (list_ex (\<lambda>row. row = [])) outputs"

definition compute_vote :: "string \<Rightarrow> tensor3 \<Rightarrow> py_error + nat list" where
  "compute_vote vote outputs =
     (if vote = ''soft'' then
        (if has_empty_row outputs then Inl IndexError else Inr (soft_vote outputs))
      else if vote = ''hard'' then
        (if has_empty_row outputs then Inl IndexError else Inr (hard_vote outputs))
      else Inl UnboundLocalError)"


text \<open>
  \<^verbatim>\<open>F.cross_entropy(x, target)\<close> with its default mean reduction, for the logits
  \<^verbatim>\<open>[B, D]\<close> of one member and the targets \<^verbatim>\<open>[B]\<close>: the mean over the batch of the
  negative log-probability of the target class. The library raises when the batch
  sizes differ and when a target is not a class index.
\<close>

definition cross_entropy_val :: "tensor2 \<Rightarrow> nat list \<Rightarrow> real" where
  "cross_entropy_val x target =
     sum_list (map2 (\<lambda>row t. - ln (softmax row ! t)) x target) / real (length x)"

definition cross_entropy :: "tensor2 \<Rightarrow> nat list \<Rightarrow> py_error + real" where
  "cross_entropy x target =
     (if length x \<noteq> length target then Inl ValueError
      else if list_ex (\<lambda>(row, t). length row \<le> t) (zip x target) then Inl IndexError
      else Inr (cross_entropy_val x target))"

text \<open>
  Line 219: the list comprehension stops at the first member whose loss raises;
  \<^verbatim>\<open>torch.stack\<close> raises on an empty list of losses.
\<close>

fun cross_entropies :: "tensor3 \<Rightarrow> nat list \<Rightarrow> py_error + real list" where
  "cross_entropies [] target = Inr []"
| "cross_entropies (x # xs) target =
     (case cross_entropy x target of
        Inl e \<Rightarrow> Inl e
      | Inr l \<Rightarrow> (case cross_entropies xs target of
                   Inl e \<Rightarrow> Inl e
                 | Inr ls \<Rightarrow> Inr (l # ls)))"

definition stack_losses :: "tensor3 \<Rightarrow> nat list \<Rightarrow> py_error + real list" where
  "stack_losses outputs target =
     (case cross_entropies outputs target of
        Inl e \<Rightarrow> Inl e
      | Inr ls \<Rightarrow> if ls = [] then Inl RuntimeError else Inr ls)"

text \<open>\<^verbatim>\<open>losses.mean()\<close>.\<close>

definition mean :: "real list \<Rightarrow> real" where
  "mean xs = sum_list xs / real (length xs)"

text \<open>Python's \<^verbatim>\<open>xs[:n]\<close>: a negative \<^verbatim>\<open>n\<close> counts from the end.\<close>

definition slice_to :: "int \<Rightarrow> 'a list \<Rightarrow> 'a list" where
  "slice_to n xs =
     (if 0 \<le> n then take (nat n) xs else take (length xs - nat (- n)) xs)"

text \<open>\<^verbatim>\<open>vote.eq(target.view_as(vote)).float().sum()\<close>: the number of correct votes.\<close>

definition count_correct :: "nat list \<Rightarrow> nat list \<Rightarrow> nat" where
  "count_correct votes target = length (filter (\<lambda>(v, t). v = t) (zip votes target))"

section \<open>Collaborators\<close>

text \<open>
  The hypernetwork, the gradient estimator, the data loaders and the uncertainty and
  plotting routines are imported modules. Their operations are parameters of the
  model: each acts on a state \<open>'e\<close> that stands for everything the collaborators own
  (generator weights, installed parameters, gradient buffers, the process-wide random
  generator). The trainer's calls are recorded, in order, in a log kept beside that
  state.
\<close>

record 'd loader =
  batches :: "('d \<times> nat list) list"
  dataset_len :: nat

datatype unc_fn = EvalMnistHypernetwork | EvalCifar5Hypernetwork
datatype plot_fn = PlotDensityMnist | PlotDensityCifar

record hn_args =
  hn_s_dim :: int
  hn_z_dim :: int
  hn_use_mixer :: bool
  hn_hidden_layers :: "int list"
  hn_particles :: int
  hn_use_bias :: bool
  hn_use_batchnorm :: bool
  hn_target_arch :: string

record estimator =
  est_particles :: int
  est_alpha :: real
  est_mode :: string

datatype bound = Fin real | PosInf

datatype ('z, 'th) call =
    ManualSeed int
  | NewHyperNetwork hn_args
  | SetTargetArchitecture
  | SetHypernetworkMixer
  | SetHypernetworkLayers
  | PrintArchitecture
  | AttachOptimizers real real
  | NewGradientEstimator estimator
  | LoadMnist
  | LoadCifar
  | SampleGeneratorInput
  | SampleParameters 'z
  | SetParametersToModel 'th
  | ForwardModel
  | ComputeGradients
  | ZeroGrad
  | ApplyGradients
  | UpdateStep
  | PrintStatistics
  | EvalMode
  | TrainMode
  | UncertaintyFn unc_fn int bool
  | PlotFn plot_fn int nat
  | Print

record ('e, 'z, 'th, 'd, 'u) collab =
  manual_seed :: "int \<Rightarrow> 'e \<Rightarrow> 'e"
  new_hypernetwork :: "hn_args \<Rightarrow> 'e \<Rightarrow> 'e"
  set_target_architecture :: "'e \<Rightarrow> 'e"
  set_hypernetwork_mixer :: "'e \<Rightarrow> 'e"
  set_hypernetwork_layers :: "'e \<Rightarrow> 'e"
  print_architecture :: "'e \<Rightarrow> 'e"
  attach_optimizers :: "real \<Rightarrow> real \<Rightarrow> 'e \<Rightarrow> 'e"
  new_grad_estimator :: "estimator \<Rightarrow> 'e \<Rightarrow> 'e"
  load_mnist :: "'e \<Rightarrow> ('d loader \<times> 'd loader) \<times> 'e"
  load_cifar :: "'e \<Rightarrow> ('d loader \<times> 'd loader) \<times> 'e"
  sample_generator_input :: "'e \<Rightarrow> 'z \<times> 'e"
  sample_parameters :: "'z \<Rightarrow> 'e \<Rightarrow> 'th \<times> 'e"
  set_parameters_to_model :: "'th \<Rightarrow> 'e \<Rightarrow> 'e"
  forward_model :: "'d \<Rightarrow> 'e \<Rightarrow> tensor3 \<times> 'e"
  compute_gradients :: "tensor3 \<Rightarrow> 'th \<Rightarrow> nat list \<Rightarrow> 'e \<Rightarrow> real list \<times> 'e"
  zero_grad :: "'e \<Rightarrow> 'e"
  apply_gradients :: "'e \<Rightarrow> 'e"
  update_step :: "'e \<Rightarrow> 'e"
  print_statistics_hypernetwork :: "string \<Rightarrow> nat \<Rightarrow> real \<Rightarrow> real \<times> bound \<Rightarrow> 'e \<Rightarrow> 'e"
  eval_mode :: "'e \<Rightarrow> 'e"
  train_mode :: "'e \<Rightarrow> 'e"
  run_uncertainty_fn :: "unc_fn \<Rightarrow> int \<Rightarrow> int \<Rightarrow> bool \<Rightarrow> 'e \<Rightarrow> 'u \<times> 'e"
  run_plot_fn :: "plot_fn \<Rightarrow> 'u \<Rightarrow> 'u \<Rightarrow> int \<Rightarrow> string \<times> int \<times> string \<Rightarrow> nat \<Rightarrow> 'e \<Rightarrow> 'e"

record ('e, 'z, 'th) world =
  calls :: "('z, 'th) call list"
  ext :: "'e"

definition invoke ::
  "('z, 'th) call \<Rightarrow> ('e \<Rightarrow> 'a \<times> 'e) \<Rightarrow> ('e, 'z, 'th) world \<Rightarrow> 'a \<times> ('e, 'z, 'th) world" where
  "invoke k f w = (case f (ext w) of (r, e) \<Rightarrow> (r, \<lparr>calls = calls w @ [k], ext = e\<rparr>))"

definition perform ::
  "('z, 'th) call \<Rightarrow> ('e \<Rightarrow> 'e) \<Rightarrow> ('e, 'z, 'th) world \<Rightarrow> ('e, 'z, 'th) world" where
  "perform k f w = \<lparr>calls = calls w @ [k], ext = f (ext w)\<rparr>"


section \<open>The trainer\<close>

text \<open>The namespace returned by \<^verbatim>\<open>load_args\<close>; any string is accepted for each string option.\<close>

record args =
  arg_s_dim :: int
  arg_z_dim :: int
  arg_num_hidden_gen :: int
  arg_hidden_w_gen :: int
  arg_num_particles :: int
  arg_target_arch :: string
  arg_grad :: string
  arg_resume :: bool
  arg_dataset :: string
  arg_use_bias :: bool
  arg_use_mixer :: bool
  arg_pretrain_mixer :: bool
  arg_use_bn :: bool
  arg_test_ensemble :: bool
  arg_test_uncertainty :: bool
  arg_vote :: string

text \<open>
  The attributes of \<^verbatim>\<open>HyperNetworkTrainer\<close>. An attribute that \<^verbatim>\<open>__init__\<close> assigns in
  one branch only is optional: \<open>None\<close> is the unset attribute, and reading it raises
  \<^verbatim>\<open>AttributeError\<close>. \<^verbatim>\<open>best_test_loss\<close> starts at \<^verbatim>\<open>np.inf\<close>. The path prefix is kept as
  the three values its format string is filled with.
\<close>

record ('e, 'z, 'th, 'd) trainer =
  s :: int
  z :: int
  particles :: int
  target_arch :: string
  use_bn :: bool
  use_bias :: bool
  pretrain_mixer :: bool
  dataset :: string
  grad_type :: string
  epochs :: nat
  vote :: string
  test_ensemble :: bool
  test_uncertainty :: bool
  hidden_w_gen :: int
  num_hidden_gen :: int
  grad_estimator :: estimator
  data_train :: "'d loader option"
  data_test :: "'d loader option"
  uncertainty_fn :: "unc_fn option"
  plot_fn :: "plot_fn option"
  best_test_acc :: real
  best_test_loss :: bound
  path_prefix :: "string \<times> int \<times> string"
  env :: "('e, 'z, 'th) world"

definition hypernetwork_args :: "args \<Rightarrow> hn_args" where
  "hypernetwork_args a =
     \<lparr>hn_s_dim = arg_s_dim a, hn_z_dim = arg_z_dim a, hn_use_mixer = arg_use_mixer a,
      hn_hidden_layers = replicate (nat (arg_num_hidden_gen a)) (arg_hidden_w_gen a),
      hn_particles = arg_num_particles a, hn_use_bias = arg_use_bias a,
      hn_use_batchnorm = arg_use_bn a, hn_target_arch = arg_target_arch a\<rparr>"

definition estimator_args :: "args \<Rightarrow> estimator" where
  "estimator_args a =
     \<lparr>est_particles = arg_num_particles a, est_alpha = 1, est_mode = arg_grad a\<rparr>"

text \<open>
  Lines 120-127: the loaders and the two routines are assigned for \<^verbatim>\<open>'mnist'\<close> and for
  \<^verbatim>\<open>'cifar'\<close>; the chain has no \<^verbatim>\<open>else\<close>.
\<close>

definition select_dataset ::
  "('e, 'z, 'th, 'd, 'u) collab \<Rightarrow> string \<Rightarrow> ('e, 'z, 'th) world \<Rightarrow>
   ('d loader option \<times> 'd loader option \<times> unc_fn option \<times> plot_fn option) \<times> ('e, 'z, 'th) world" where
  "select_dataset c name w =
     (if name = ''mnist'' then
        (case invoke LoadMnist (load_mnist c) w of
           ((tr, te), w') \<Rightarrow> ((Some tr, Some te, Some EvalMnistHypernetwork, Some PlotDensityMnist), w'))
      else if name = ''cifar'' then
        (case invoke LoadCifar (load_cifar c) w of
           ((tr, te), w') \<Rightarrow> ((Some tr, Some te, Some EvalCifar5Hypernetwork, Some PlotDensityCifar), w'))
      else ((None, None, None, None), w))"

text \<open>
  \<^verbatim>\<open>HyperNetworkTrainer.__init__\<close>. The constructor has no \<^verbatim>\<open>raise\<close> and no check of its
  own; the result is a sum so that returning can be told from raising.
\<close>

definition init ::
  "('e, 'z, 'th, 'd, 'u) collab \<Rightarrow> args \<Rightarrow> ('e, 'z, 'th) world \<Rightarrow>
   py_error + ('e, 'z, 'th, 'd) trainer" where
  "init c a w0 =
     (let w1 = perform (ManualSeed 8734) (manual_seed c 8734) w0;
          w2 = perform (NewHyperNetwork (hypernetwork_args a))
                 (new_hypernetwork c (hypernetwork_args a)) w1;
          w3 = perform SetTargetArchitecture (set_target_architecture c) w2;
          w4 = perform SetHypernetworkMixer (set_hypernetwork_mixer c) w3;
          w5 = perform SetHypernetworkLayers (set_hypernetwork_layers c) w4;
          w6 = perform PrintArchitecture (print_architecture c) w5;
          w7 = perform (AttachOptimizers (5 / 1000) (1 / 10000))
                 (attach_optimizers c (5 / 1000) (1 / 10000)) w6;
          w8 = perform (NewGradientEstimator (estimator_args a))
                 (new_grad_estimator c (estimator_args a)) w7
      in case select_dataset c (arg_dataset a) w8 of
           ((tr, te, uf, pf), w9) \<Rightarrow>
             Inr \<lparr>s = arg_s_dim a, z = arg_z_dim a, particles = arg_num_particles a,
                  target_arch = arg_target_arch a, use_bn = arg_use_bn a,
                  use_bias = arg_use_bias a, pretrain_mixer = arg_pretrain_mixer a,
                  dataset = arg_dataset a, grad_type = arg_grad a, epochs = 200,
                  vote = arg_vote a, test_ensemble = arg_test_ensemble a,
                  test_uncertainty = arg_test_uncertainty a,
                  hidden_w_gen = arg_hidden_w_gen a, num_hidden_gen = arg_num_hidden_gen a,
                  grad_estimator = estimator_args a,
                  data_train = tr, data_test = te, uncertainty_fn = uf, plot_fn = pf,
                  best_test_acc = 0, best_test_loss = PosInf,
                  path_prefix = (arg_grad a, arg_hidden_w_gen a, arg_dataset a),
                  env = w9\<rparr>)"

subsection \<open>Evaluation\<close>

text \<open>The comparisons of lines 238-243 against a bound that may be \<^verbatim>\<open>np.inf\<close>.\<close>

definition below :: "real \<Rightarrow> bound \<Rightarrow> bool" where
  "below x b = (case b of PosInf \<Rightarrow> True | Fin y \<Rightarrow> x < y)"

definition bound_le :: "bound \<Rightarrow> bound \<Rightarrow> bool" where
  "bound_le a b =
     (case b of PosInf \<Rightarrow> True
      | Fin y \<Rightarrow> (case a of PosInf \<Rightarrow> False | Fin x \<Rightarrow> x \<le> y))"

text \<open>One iteration of the loop of lines 210-233, on the running sums.\<close>

definition test_batch ::
  "('e, 'z, 'th, 'd, 'u) collab \<Rightarrow> string \<Rightarrow> int \<Rightarrow> 'd \<times> nat list \<Rightarrow>
   real \<times> nat \<times> ('e, 'z, 'th) world \<Rightarrow> py_error + real \<times> nat \<times> ('e, 'z, 'th) world" where
  "test_batch c vt ens_size b acc =
     (case acc of (test_loss, correct, w0) \<Rightarrow>
      case invoke SampleGeneratorInput (sample_generator_input c) w0 of (zs, w1) \<Rightarrow>
      case invoke (SampleParameters zs) (sample_parameters c zs) w1 of (theta, w2) \<Rightarrow>
      case perform (SetParametersToModel theta) (set_parameters_to_model c theta) w2 of w3 \<Rightarrow>
      case invoke ForwardModel (forward_model c (fst b)) w3 of (out, w4) \<Rightarrow>
      (let outputs = slice_to ens_size (transpose out) in
       case stack_losses outputs (snd b) of
         Inl e \<Rightarrow> Inl e
       | Inr losses \<Rightarrow>
           (case compute_vote vt outputs of
              Inl e \<Rightarrow> Inl e
            | Inr votes \<Rightarrow>
                Inr (test_loss + mean losses, correct + count_correct votes (snd b), w4))))"

fun test_loop ::
  "('e, 'z, 'th, 'd, 'u) collab \<Rightarrow> string \<Rightarrow> int \<Rightarrow> ('d \<times> nat list) list \<Rightarrow>
   real \<times> nat \<times> ('e, 'z, 'th) world \<Rightarrow> py_error + real \<times> nat \<times> ('e, 'z, 'th) world" where
  "test_loop c vt ens_size [] acc = Inr acc"
| "test_loop c vt ens_size (b # bs) acc =
     (case test_batch c vt ens_size b acc of
        Inl e \<Rightarrow> Inl e
      | Inr acc' \<Rightarrow> test_loop c vt ens_size bs acc')"

text \<open>Lines 238-243.\<close>

definition update_best ::
  "real \<Rightarrow> real \<Rightarrow> ('e, 'z, 'th, 'd) trainer \<Rightarrow> ('e, 'z, 'th, 'd) trainer" where
  "update_best test_loss test_acc t =
     (if below test_loss (best_test_loss t) \<or> best_test_acc t < test_acc then
        (let t1 = t\<lparr>env := perform Print id (env t)\<rparr>;
             t2 = (if below test_loss (best_test_loss t1)
                   then t1\<lparr>best_test_loss := Fin test_loss\<rparr> else t1)
         in if best_test_acc t2 < test_acc then t2\<lparr>best_test_acc := test_acc\<rparr> else t2)
      else t)"

text \<open>
  \<^verbatim>\<open>test(ens_size)\<close>. The result is the returned triple and the trainer after the call.
  \<^verbatim>\<open>test_loss /= len(...)\<close> divides a Python float and raises on an empty dataset.
\<close>

definition test ::
  "('e, 'z, 'th, 'd, 'u) collab \<Rightarrow> int \<Rightarrow> ('e, 'z, 'th, 'd) trainer \<Rightarrow>
   py_error + (real \<times> real \<times> nat) \<times> ('e, 'z, 'th, 'd) trainer" where
  "test c ens_size t =
     (let w0 = perform EvalMode (eval_mode c) (env t) in
      case data_test t of
        None \<Rightarrow> Inl AttributeError
      | Some ld \<Rightarrow>
          (case test_loop c (vote t) ens_size (batches ld) (0, 0, w0) of
             Inl e \<Rightarrow> Inl e
           | Inr (loss_sum, correct, w1) \<Rightarrow>
               if dataset_len ld = 0 then Inl ZeroDivisionError
               else
                 (let test_loss = loss_sum / real (dataset_len ld);
                      test_acc = real correct / real (dataset_len ld);
                      w2 = perform TrainMode (train_mode c) w1
                  in Inr ((test_loss, test_acc, correct),
                          update_best test_loss test_acc (t\<lparr>env := w2\<rparr>)))))"


text \<open>\<^verbatim>\<open>evaluate_as_ensemble\<close>: one \<^verbatim>\<open>test\<close> and two printed lines for each ensemble size.\<close>

fun evaluate_as_ensemble ::
  "('e, 'z, 'th, 'd, 'u) collab \<Rightarrow> int list \<Rightarrow> nat \<Rightarrow> ('e, 'z, 'th, 'd) trainer \<Rightarrow>
   py_error + ('e, 'z, 'th, 'd) trainer" where
  "evaluate_as_ensemble c [] epoch t = Inr t"
| "evaluate_as_ensemble c (n_models # rest) epoch t =
     (case test c n_models t of
        Inl e \<Rightarrow> Inl e
      | Inr (r, t') \<Rightarrow>
          evaluate_as_ensemble c rest epoch
            (t'\<lparr>env := perform Print id (perform Print id (env t'))\<rparr>))"

subsection \<open>Training\<close>

text \<open>
  The body of the loop of lines 140-166 for one mini-batch. Moving tensors to the
  device and transposing them are tensor operations, not calls to a collaborator.
  \<^verbatim>\<open>args.dataset\<close> is the global namespace the trainer was built from.
\<close>

definition train_batch ::
  "('e, 'z, 'th, 'd, 'u) collab \<Rightarrow> nat \<Rightarrow> nat \<Rightarrow> 'd \<times> nat list \<Rightarrow>
   ('e, 'z, 'th, 'd) trainer \<Rightarrow> ('e, 'z, 'th, 'd) trainer" where
  "train_batch c epoch batch_idx b t =
     (case invoke SampleGeneratorInput (sample_generator_input c) (env t) of (zs, w1) \<Rightarrow>
      case invoke (SampleParameters zs) (sample_parameters c zs) w1 of (theta, w2) \<Rightarrow>
      case perform (SetParametersToModel theta) (set_parameters_to_model c theta) w2 of w3 \<Rightarrow>
      case invoke ForwardModel (forward_model c (fst b)) w3 of (out, w4) \<Rightarrow>
      case invoke ComputeGradients (compute_gradients c (transpose out) theta (snd b)) w4 of
        (loss, w5) \<Rightarrow>
      case perform ZeroGrad (zero_grad c) w5 of w6 \<Rightarrow>
      case perform ApplyGradients (apply_gradients c) w6 of w7 \<Rightarrow>
      case perform UpdateStep (update_step c) w7 of w8 \<Rightarrow>
        t\<lparr>env :=
            (if batch_idx mod 100 = 0 then
               perform PrintStatistics
                 (print_statistics_hypernetwork c (dataset t) epoch (mean loss)
                    (best_test_acc t, best_test_loss t)) w8
             else w8)\<rparr>)"

fun train_batches ::
  "('e, 'z, 'th, 'd, 'u) collab \<Rightarrow> nat \<Rightarrow> nat \<Rightarrow> ('d \<times> nat list) list \<Rightarrow>
   ('e, 'z, 'th, 'd) trainer \<Rightarrow> ('e, 'z, 'th, 'd) trainer" where
  "train_batches c epoch batch_idx [] t = t"
| "train_batches c epoch batch_idx (b # bs) t =
     train_batches c epoch (Suc batch_idx) bs (train_batch c epoch batch_idx b t)"

text \<open>Lines 174-195: the uncertainty statistics and their plot for one ensemble size.\<close>

definition uncertainty_step ::
  "('e, 'z, 'th, 'd, 'u) collab \<Rightarrow> nat \<Rightarrow> int \<Rightarrow> ('e, 'z, 'th, 'd) trainer \<Rightarrow>
   py_error + ('e, 'z, 'th, 'd) trainer" where
  "uncertainty_step c epoch ens_size t =
     (case uncertainty_fn t of
        None \<Rightarrow> Inl AttributeError
      | Some uf \<Rightarrow>
          (case invoke (UncertaintyFn uf ens_size False)
                  (run_uncertainty_fn c uf ens_size (s t) False) (env t) of
             (x_inliers, w1) \<Rightarrow>
           case invoke (UncertaintyFn uf ens_size True)
                  (run_uncertainty_fn c uf ens_size (s t) True) w1 of
             (x_outliers, w2) \<Rightarrow>
           (case plot_fn t of
              None \<Rightarrow> Inl AttributeError
            | Some pf \<Rightarrow>
                Inr (t\<lparr>env := perform (PlotFn pf ens_size (epoch + 1))
                       (run_plot_fn c pf x_inliers x_outliers ens_size (path_prefix t)
                          (epoch + 1)) w2\<rparr>))))"

fun uncertainty_loop ::
  "('e, 'z, 'th, 'd, 'u) collab \<Rightarrow> nat \<Rightarrow> int list \<Rightarrow> ('e, 'z, 'th, 'd) trainer \<Rightarrow>
   py_error + ('e, 'z, 'th, 'd) trainer" where
  "uncertainty_loop c epoch [] t = Inr t"
| "uncertainty_loop c epoch (n # ns) t =
     (case uncertainty_step c epoch n t of
        Inl e \<Rightarrow> Inl e
      | Inr t' \<Rightarrow> uncertainty_loop c epoch ns t')"

definition ens_sizes :: "('e, 'z, 'th, 'd) trainer \<Rightarrow> int list" where
  "ens_sizes t = (if test_ensemble t then [1, 5, 10, particles t] else [particles t])"

text \<open>One pass of the outer loop of \<^verbatim>\<open>train\<close>.\<close>

definition train_epoch ::
  "('e, 'z, 'th, 'd, 'u) collab \<Rightarrow> nat \<Rightarrow> ('e, 'z, 'th, 'd) trainer \<Rightarrow>
   py_error + ('e, 'z, 'th, 'd) trainer" where
  "train_epoch c epoch t =
     (case data_train t of
        None \<Rightarrow> Inl AttributeError
      | Some ld \<Rightarrow>
          (let t1 = train_batches c epoch 0 (batches ld) t in
           case evaluate_as_ensemble c (ens_sizes t1) epoch t1 of
             Inl e \<Rightarrow> Inl e
           | Inr t2 \<Rightarrow>
               if test_uncertainty t2
               then uncertainty_loop c epoch [5, 10, particles t2] t2
               else Inr t2))"

fun train_epochs ::
  "('e, 'z, 'th, 'd, 'u) collab \<Rightarrow> nat list \<Rightarrow> ('e, 'z, 'th, 'd) trainer \<Rightarrow>
   py_error + ('e, 'z, 'th, 'd) trainer" where
  "train_epochs c [] t = Inr t"
| "train_epochs c (epoch # rest) t =
     (case train_epoch c epoch t of
        Inl e \<Rightarrow> Inl e
      | Inr t' \<Rightarrow> train_epochs c rest t')"

definition train ::
  "('e, 'z, 'th, 'd, 'u) collab \<Rightarrow> ('e, 'z, 'th, 'd) trainer \<Rightarrow>
   py_error + ('e, 'z, 'th, 'd) trainer" where
  "train c t = train_epochs c [0..<epochs t] (t\<lparr>env := perform Print id (env t)\<rparr>)"

text \<open>The script's entry point: build the trainer from the arguments, then train.\<close>

definition main ::
  "('e, 'z, 'th, 'd, 'u) collab \<Rightarrow> args \<Rightarrow> ('e, 'z, 'th) world \<Rightarrow>
   py_error + ('e, 'z, 'th, 'd) trainer" where
  "main c a w = (case init c a w of Inl e \<Rightarrow> Inl e | Inr t \<Rightarrow> train c t)"


text \<open>
  What the collaborators hand to one evaluation pass, batch by batch, from the state
  \<open>e\<close> they are in when the pass starts: the latents drawn for the batch, the ensemble
  generated from them and installed, and the outputs \<^verbatim>\<open>[N, B, D]\<close> of the network on the
  batch.
\<close>

definition batch_record ::
  "('e, 'z, 'th, 'd, 'u) collab \<Rightarrow> 'd \<times> nat list \<Rightarrow> 'e \<Rightarrow> 'z \<times> 'th \<times> tensor3" where
  "batch_record c b e =
     (case sample_generator_input c e of (zs, e1) \<Rightarrow>
      case sample_parameters c zs e1 of (theta, e2) \<Rightarrow>
      case forward_model c (fst b) (set_parameters_to_model c theta e2) of (out, e4) \<Rightarrow>
        (zs, theta, transpose out))"

definition after_batch ::
  "('e, 'z, 'th, 'd, 'u) collab \<Rightarrow> 'd \<times> nat list \<Rightarrow> 'e \<Rightarrow> 'e" where
  "after_batch c b e =
     (case sample_generator_input c e of (zs, e1) \<Rightarrow>
      case sample_parameters c zs e1 of (theta, e2) \<Rightarrow>
      case forward_model c (fst b) (set_parameters_to_model c theta e2) of (out, e4) \<Rightarrow> e4)"

fun eval_batches ::
  "('e, 'z, 'th, 'd, 'u) collab \<Rightarrow> ('d \<times> nat list) list \<Rightarrow> 'e \<Rightarrow>
   ('z \<times> 'th \<times> tensor3) list" where
  "eval_batches c [] e = []"
| "eval_batches c (b # bs) e = batch_record c b e # eval_batches c bs (after_batch c b e)"

definition batch_calls :: "'z \<times> 'th \<times> tensor3 \<Rightarrow> ('z, 'th) call list" where
  "batch_calls r =
     [SampleGeneratorInput, SampleParameters (fst r), SetParametersToModel (fst (snd r)),
      ForwardModel]"

text \<open>
  The loss of one batch as the spec words it: the mean, across the first \<open>n\<close> members,
  of the members' cross-entropies on the batch. Each cross-entropy is already a mean
  over the examples of the batch, so the exact per-example average over the test set
  weighs every batch by its number of examples.
\<close>

definition batch_loss :: "int \<Rightarrow> 'z \<times> 'th \<times> tensor3 \<Rightarrow> 'd \<times> nat list \<Rightarrow> real" where
  "batch_loss n r b = mean (map (\<lambda>x. cross_entropy_val x (snd b)) (slice_to n (snd (snd r))))"

definition example_average_loss ::
  "int \<Rightarrow> ('z \<times> 'th \<times> tensor3) list \<Rightarrow> ('d \<times> nat list) list \<Rightarrow> nat \<Rightarrow> real" where
  "example_average_loss n rs bs len =
     sum_list (map2 (\<lambda>r b. real (length (snd b)) * batch_loss n r b) rs bs) / real len"




section \<open>The gradient estimator\<close>

text \<open>
  Modelled from the spec: the class \<^verbatim>\<open>GradientEstimatorStein\<close> of the module
  \<^verbatim>\<open>stein_estimators\<close> is imported by the trainer and is not among the sources. The
  spec (section 4.2) gives it two modes. In the baseline mode the gradient of a
  particle is its own data-loss gradient scaled by \<^verbatim>\<open>alpha\<close>. In the Stein mode an RBF
  kernel matrix is computed, its bandwidth set by the median pairwise distance of the
  particle vectors and clamped to a minimum bandwidth, and the corrected gradient of
  particle \<open>i\<close> is \<^verbatim>\<open>alpha * sum_j K[i,j] * grad_loss[j] + sum_j grad_j K[i,j]\<close>, averaged
  by the ensemble size. Zero particles, a shape mismatch and a kernel that is not
  finite are failures. A particle is a list of reals; a division by a zero bandwidth
  (the floating-point \<^verbatim>\<open>0/0\<close> on the kernel's diagonal) is the failure
  \<open>KernelNotFinite\<close>.
\<close>

datatype estimator_failure = ZeroParticles | ShapeMismatch | KernelNotFinite | UnknownMode

definition scale :: "real \<Rightarrow> real list \<Rightarrow> real list" where
  "scale a v = map (\<lambda>x. a * x) v"

definition vsub :: "real list \<Rightarrow> real list \<Rightarrow> real list" where
  "vsub u v = map2 (\<lambda>a b. a - b) u v"

definition vadd :: "real list \<Rightarrow> real list \<Rightarrow> real list" where
  "vadd u v = map2 (\<lambda>a b. a + b) u v"

definition vsum :: "nat \<Rightarrow> real list list \<Rightarrow> real list" where
  "vsum d vs = foldr vadd vs (replicate d 0)"

definition sqdist :: "real list \<Rightarrow> real list \<Rightarrow> real" where
  "sqdist u v = sum_list (map (\<lambda>x. x * x) (vsub u v))"

definition median :: "real list \<Rightarrow> real" where
  "median ds = (if ds = [] then 0 else sort ds ! ((length ds - 1) div 2))"

definition bandwidth :: "real \<Rightarrow> real list list \<Rightarrow> real" where
  "bandwidth h_min thetas =
     max h_min (median (concat (map (\<lambda>u. map (\<lambda>v. sqdist u v) thetas) thetas)))"

definition rbf :: "real \<Rightarrow> real list \<Rightarrow> real list \<Rightarrow> real" where
  "rbf h u v = exp (- sqdist u v / h)"

definition kernel_matrix :: "real \<Rightarrow> real list list \<Rightarrow> estimator_failure + real list list" where
  "kernel_matrix h_min thetas =
     (if thetas = [] then Inl ZeroParticles
      else let h = bandwidth h_min thetas in
        if h = 0 then Inl KernelNotFinite
        else Inr (map (\<lambda>u. map (\<lambda>v. rbf h u v) thetas) thetas))"

text \<open>The gradient of \<open>K[i,j]\<close> in particle \<open>j\<close>, and its sum over \<open>j\<close>: the repulsion term.\<close>

definition rbf_grad :: "real \<Rightarrow> real list \<Rightarrow> real list \<Rightarrow> real list" where
  "rbf_grad h u v = scale (2 * rbf h u v / h) (vsub u v)"

definition repulsion :: "real \<Rightarrow> real list list \<Rightarrow> estimator_failure + real list list" where
  "repulsion h_min thetas =
     (if thetas = [] then Inl ZeroParticles
      else let h = bandwidth h_min thetas in
        if h = 0 then Inl KernelNotFinite
        else Inr (map (\<lambda>u. vsum (length u) (map (\<lambda>v. rbf_grad h u v) thetas)) thetas))"

definition attraction :: "real list list \<Rightarrow> real list list \<Rightarrow> real list list" where
  "attraction k grads =
     map (\<lambda>row. vsum (length (hd grads)) (map2 (\<lambda>kij g. scale kij g) row grads)) k"

definition corrected_gradients ::
  "estimator \<Rightarrow> real \<Rightarrow> real list list \<Rightarrow> real list list \<Rightarrow>
   estimator_failure + real list list" where
  "corrected_gradients est h_min thetas grads =
     (if thetas = [] then Inl ZeroParticles
      else if length grads \<noteq> length thetas then Inl ShapeMismatch
      else if est_mode est = ''naive'' then Inr (map (scale (est_alpha est)) grads)
      else if est_mode est = ''svgd'' then
        (case kernel_matrix h_min thetas of
           Inl e \<Rightarrow> Inl e
         | Inr k \<Rightarrow>
             (case repulsion h_min thetas of
                Inl e \<Rightarrow> Inl e
              | Inr rep \<Rightarrow>
                  Inr (map2 (\<lambda>a r. scale (1 / real (length thetas))
                                      (vadd (scale (est_alpha est) a) r))
                         (attraction k grads) rep)))
      else Inl UnknownMode)"

section \<open>A concrete run\<close>

text \<open>
  Collaborators small enough to run the trainer by hand. The collaborators' state is a
  counter standing for the random generator: every draw of latents returns the
  counter and advances it, the generated ensemble is the latent itself, and the
  network returns its input as the logits \<^verbatim>\<open>[B, N, D]\<close>. The test set has three examples
  in two batches, for two members and two classes, and all logits are zero.
\<close>

definition demo_loader :: "tensor3 loader" where
  "demo_loader =
     \<lparr>batches = [([[[0, 0], [0, 0]], [[0, 0], [0, 0]]], [0, 1]), ([[[0, 0], [0, 0]]], [0])],
      dataset_len = 3\<rparr>"

definition demo_collab :: "(nat, nat, nat, tensor3, unit) collab" where
  "demo_collab =
     \<lparr>manual_seed = (\<lambda>seed e. e),
      new_hypernetwork = (\<lambda>a e. e),
      set_target_architecture = (\<lambda>e. e),
      set_hypernetwork_mixer = (\<lambda>e. e),
      set_hypernetwork_layers = (\<lambda>e. e),
      print_architecture = (\<lambda>e. e),
      attach_optimizers = (\<lambda>lr_mixer lr_generator e. e),
      new_grad_estimator = (\<lambda>est e. e),
      load_mnist = (\<lambda>e. ((demo_loader, demo_loader), e)),
      load_cifar = (\<lambda>e. ((demo_loader, demo_loader), e)),
      sample_generator_input = (\<lambda>e. (e, Suc e)),
      sample_parameters = (\<lambda>zs e. (zs, e)),
      set_parameters_to_model = (\<lambda>theta e. e),
      forward_model = (\<lambda>d e. (d, e)),
      compute_gradients = (\<lambda>outputs theta target e. ([0], e)),
      zero_grad = (\<lambda>e. e),
      apply_gradients = (\<lambda>e. e),
      update_step = (\<lambda>e. e),
      print_statistics_hypernetwork = (\<lambda>name epoch loss best e. e),
      eval_mode = (\<lambda>e. e),
      train_mode = (\<lambda>e. e),
      run_uncertainty_fn = (\<lambda>uf ens_size dim outlier e. ((), e)),
      run_plot_fn = (\<lambda>pf x_in x_out ens_size pre epoch e. e)\<rparr>"

definition demo_args :: args where
  "demo_args =
     \<lparr>arg_s_dim = 512, arg_z_dim = 32, arg_num_hidden_gen = 2, arg_hidden_w_gen = 32,
      arg_num_particles = 2, arg_target_arch = ''lenet'', arg_grad = ''naive'',
      arg_resume = False, arg_dataset = ''mnist'', arg_use_bias = True,
      arg_use_mixer = False, arg_pretrain_mixer = False, arg_use_bn = False,
      arg_test_ensemble = True, arg_test_uncertainty = False, arg_vote = ''hard''\<rparr>"

definition demo_world :: "(nat, nat, nat) world" where
  "demo_world = \<lparr>calls = [], ext = 0\<rparr>"

definition demo_trainer :: "(nat, nat, nat, tensor3) trainer" where
  "demo_trainer = (case init demo_collab demo_args demo_world of Inr t \<Rightarrow> t)"



text \<open>
  A trainer with seven particles and ensemble ablation: one test example on which the
  members predict the labels \<open>0, 0, 0, 1, 1, 1, 1\<close>, and whose target is \<open>1\<close>.
\<close>

definition seven_loader :: "tensor3 loader" where
  "seven_loader =
     \<lparr>batches = [([[[1, 0], [1, 0], [1, 0], [0, 1], [0, 1], [0, 1], [0, 1]]], [1])],
      dataset_len = 1\<rparr>"

definition seven_trainer :: "(nat, nat, nat, tensor3) trainer" where
  "seven_trainer = demo_trainer\<lparr>particles := 7, data_test := Some seven_loader\<rparr>"

section \<open>Properties of the vote\<close>

lemma argmax_acc_map:
  assumes "strict_mono f"
  shows "argmax_acc (map f xs) i bi (f bv) = argmax_acc xs i bi bv"
  using assms by (induction xs arbitrary: i bi bv) (simp_all add: strict_mono_less)

lemma argmax_map:
  assumes "strict_mono f"
  shows "argmax (map f xs) = argmax xs"
  using assms by (cases xs) (simp_all add: argmax_def argmax_acc_map)

lemma sum_exp_nonneg: "0 \<le> sum_list (map exp (xs :: real list))"
  by (induction xs) simp_all

lemma sum_exp_pos: "xs \<noteq> [] \<Longrightarrow> 0 < sum_list (map exp (xs :: real list))"
proof (cases xs)
  case Nil
  assume "xs \<noteq> []" with Nil show ?thesis by simp
next
  case (Cons y ys)
  have "0 < exp y" by simp
  with sum_exp_nonneg [of ys] have "0 < exp y + sum_list (map exp ys)"
    by linarith
  with Cons show ?thesis by simp
qed

lemma argmax_softmax: "argmax (softmax xs) = argmax xs"
proof (cases xs)
  case Nil
  then show ?thesis by (simp add: softmax_def)
next
  case (Cons y ys)
  then have pos: "0 < sum_list (map exp xs)" by (intro sum_exp_pos) simp
  have "strict_mono (\<lambda>x::real. exp x / sum_list (map exp xs))"
    using pos by (simp add: strict_mono_def divide_strict_right_mono)
  then show ?thesis unfolding softmax_def by (rule argmax_map)
qed

lemma mode_pick_spec:
  assumes "sorted vs" and "\<forall>w\<in>set vs. best \<le> w" and "best \<in> P"
    and "\<forall>u\<in>P. count_list xs u \<le> count_list xs best \<and>
           (count_list xs u = count_list xs best \<longrightarrow> best \<le> u)"
  shows "mode_pick xs vs best \<in> P \<union> set vs \<and>
         (\<forall>u\<in>P \<union> set vs. count_list xs u \<le> count_list xs (mode_pick xs vs best) \<and>
           (count_list xs u = count_list xs (mode_pick xs vs best) \<longrightarrow> mode_pick xs vs best \<le> u))"
  using assms
proof (induction vs arbitrary: best P)
  case Nil
  then show ?case by simp
next
  case (Cons v vs)
  define b where "b = (if count_list xs best < count_list xs v then v else best)"
  have s: "sorted vs" and le_v: "\<forall>w\<in>set vs. v \<le> w" and le_b: "best \<le> v" "\<forall>w\<in>set vs. best \<le> w"
    using Cons.prems(1,2) by simp_all
  have 1: "\<forall>w\<in>set vs. b \<le> w" using le_v le_b by (simp add: b_def)
  have 2: "b \<in> insert v P" using Cons.prems(3) by (simp add: b_def)
  have 3: "\<forall>u\<in>insert v P. count_list xs u \<le> count_list xs b \<and>
           (count_list xs u = count_list xs b \<longrightarrow> b \<le> u)"
  proof
    fix u assume u: "u \<in> insert v P"
    show "count_list xs u \<le> count_list xs b \<and> (count_list xs u = count_list xs b \<longrightarrow> b \<le> u)"
    proof (cases "u = v")
      case True
      then show ?thesis using le_b(1) by (simp add: b_def)
    next
      case False
      with u have "u \<in> P" by simp
      with Cons.prems(4) have "count_list xs u \<le> count_list xs best"
        and "count_list xs u = count_list xs best \<longrightarrow> best \<le> u" by simp_all
      then show ?thesis by (auto simp: b_def)
    qed
  qed
  have "mode_pick xs (v # vs) best = mode_pick xs vs b" by (simp add: b_def)
  moreover have "insert v P \<union> set vs = P \<union> set (v # vs)" by auto
  ultimately show ?case using Cons.IH [OF s 1 2 3] by simp
qed

lemma mode_label_spec:
  assumes "xs \<noteq> []"
  shows "mode_label xs \<in> set xs"
    and "count_list xs u \<le> count_list xs (mode_label xs)"
    and "count_list xs u = count_list xs (mode_label xs) \<Longrightarrow> mode_label xs \<le> u"
proof -
  from assms have "sort xs \<noteq> []" by (metis length_sort length_0_conv)
  then obtain v vs where svs: "sort xs = v # vs" by (cases "sort xs") auto
  have srt: "sorted (v # vs)" using sorted_sort [of xs] by (simp add: svs)
  have "set (sort xs) = set xs" by simp
  then have sxs: "set xs = insert v (set vs)" by (simp add: svs)
  have ml: "mode_label xs = mode_pick xs vs v" by (simp add: mode_label_def svs)
  have "mode_pick xs vs v \<in> {v} \<union> set vs \<and>
         (\<forall>u\<in>{v} \<union> set vs. count_list xs u \<le> count_list xs (mode_pick xs vs v) \<and>
           (count_list xs u = count_list xs (mode_pick xs vs v) \<longrightarrow> mode_pick xs vs v \<le> u))"
    using srt by (intro mode_pick_spec) simp_all
  then have mem: "mode_label xs \<in> set xs"
    and best: "\<And>w. w \<in> set xs \<Longrightarrow> count_list xs w \<le> count_list xs (mode_label xs) \<and>
           (count_list xs w = count_list xs (mode_label xs) \<longrightarrow> mode_label xs \<le> w)"
    unfolding ml sxs by auto
  show "mode_label xs \<in> set xs" by (rule mem)
  have pos: "0 < count_list xs (mode_label xs)" using mem count_list_0_iff [of xs "mode_label xs"] by simp
  show "count_list xs u \<le> count_list xs (mode_label xs)"
  proof (cases "u \<in> set xs")
    case True then show ?thesis using best by simp
  next
    case False then show ?thesis by (simp add: count_list_0_iff)
  qed
  show "mode_label xs \<le> u" if "count_list xs u = count_list xs (mode_label xs)"
  proof -
    from that pos have "u \<in> set xs" using count_list_0_iff [of xs u] by simp
    with best that show ?thesis by simp
  qed
qed

lemma mode_label_single: "mode_label [l] = l"
  by (simp add: mode_label_def)

lemma transpose_single: "transpose [xs] = map (\<lambda>x. [x]) xs"
  by (induction xs) simp_all

lemma foldr_max_rect:
  "\<forall>xs\<in>set xss. length xs = B \<Longrightarrow>
   foldr (\<lambda>xs. max (length xs)) xss 0 = (if xss = [] then 0 else B)"
  by (induction xss) auto

lemma transpose_rect:
  assumes "xss \<noteq> []" and "\<forall>xs\<in>set xss. length xs = B"
  shows "transpose xss = map (\<lambda>b. map (\<lambda>xs. xs ! b) xss) [0..<B]"
proof (rule nth_equalityI)
  have "foldr (\<lambda>xs. max (length xs)) xss 0 = B"
    using foldr_max_rect [OF assms(2)] assms(1) by simp
  then show len: "length (transpose xss) = length (map (\<lambda>b. map (\<lambda>xs. xs ! b) xss) [0..<B])"
    by (simp add: length_transpose)
  fix i assume "i < length (transpose xss)"
  with len have i: "i < B" by simp
  then have "filter (\<lambda>ys. i < length ys) xss = xss" using assms(2) by (simp add: filter_id_conv)
  with i \<open>i < length (transpose xss)\<close> show "transpose xss ! i = map (\<lambda>b. map (\<lambda>xs. xs ! b) xss) [0..<B] ! i"
    by (simp add: nth_transpose)
qed

lemma mean0_single: "mean0 [p] = p"
  by (simp add: mean0_def)

lemma soft_vote_single: "soft_vote [m] = map argmax m"
  by (simp add: soft_vote_def mean0_single argmax_softmax comp_def)

lemma hard_vote_single: "hard_vote [m] = map argmax m"
  by (simp add: hard_vote_def transpose_single mode_label_single argmax_softmax comp_def)

lemma hard_vote_rect:
  assumes "ms \<noteq> []" and "\<forall>m\<in>set ms. length m = B"
  shows "hard_vote ms = map (\<lambda>b. mode_label (map (\<lambda>m. argmax (m ! b)) ms)) [0..<B]"
proof -
  have "transpose (map (map argmax) (map (map softmax) ms))
        = map (\<lambda>b. map (\<lambda>xs. xs ! b) (map (map argmax) (map (map softmax) ms))) [0..<B]"
    using assms by (intro transpose_rect) auto
  also have "\<dots> = map (\<lambda>b. map (\<lambda>m. argmax (m ! b)) ms) [0..<B]"
    using assms(2) by (auto simp: argmax_softmax)
  finally show ?thesis by (simp add: hard_vote_def comp_def)
qed


lemma has_empty_row_iff:
  "has_empty_row outs \<longleftrightarrow> (\<exists>m\<in>set outs. \<exists>row\<in>set m. row = [])"
  by (simp add: has_empty_row_def list_ex_iff)

text \<open>
  C1. With vote mode \<^verbatim>\<open>'hard'\<close> and any requested sub-size \<open>n\<close>, the vote of every
  example of a batch is the mode of the argmax labels of the \<open>n\<close> members kept by the
  truncation. The mode is one of the members' labels, no label occurs more often, and
  among the labels that occur as often it is the lowest. The vote is a function of
  the outputs, so repeated calls on the same outputs return the same labels. The
  labels \<open>[0,0,1]\<close> give \<open>0\<close> and the labels \<open>[0,1,2]\<close> give \<open>0\<close>: the witness below runs
  both examples in one batch of a three-member sub-ensemble.
\<close>

theorem hard_vote_majority:
  fixes outs ms :: tensor3
  assumes "ms = slice_to n outs" and "ms \<noteq> []"
    and "\<forall>m\<in>set ms. length m = B \<and> (\<forall>row\<in>set m. row \<noteq> [])"
  shows "compute_vote ''hard'' (slice_to n outs) =
           Inr (map (\<lambda>b. mode_label (map (\<lambda>m. argmax (m ! b)) ms)) [0..<B]) \<and>
         (\<forall>b<B. let labels = map (\<lambda>m. argmax (m ! b)) ms; v = mode_label labels
                in v \<in> set labels \<and>
                   (\<forall>l. count_list labels l \<le> count_list labels v) \<and>
                   (\<forall>l. count_list labels l = count_list labels v \<longrightarrow> v \<le> l))"
proof
  have "\<not> has_empty_row ms" using assms(3) by (auto simp: has_empty_row_iff)
  moreover have "hard_vote ms = map (\<lambda>b. mode_label (map (\<lambda>m. argmax (m ! b)) ms)) [0..<B]"
    using assms(2,3) by (intro hard_vote_rect) auto
  ultimately show "compute_vote ''hard'' (slice_to n outs) =
           Inr (map (\<lambda>b. mode_label (map (\<lambda>m. argmax (m ! b)) ms)) [0..<B])"
    by (simp add: compute_vote_def assms(1))
next
  show "\<forall>b<B. let labels = map (\<lambda>m. argmax (m ! b)) ms; v = mode_label labels
                in v \<in> set labels \<and>
                   (\<forall>l. count_list labels l \<le> count_list labels v) \<and>
                   (\<forall>l. count_list labels l = count_list labels v \<longrightarrow> v \<le> l)"
  proof (intro allI impI)
    fix b
    define labels where "labels = map (\<lambda>m. argmax (m ! b)) ms"
    have ne: "labels \<noteq> []" using assms(2) by (simp add: labels_def)
    show "let labels = map (\<lambda>m. argmax (m ! b)) ms; v = mode_label labels
                in v \<in> set labels \<and>
                   (\<forall>l. count_list labels l \<le> count_list labels v) \<and>
                   (\<forall>l. count_list labels l = count_list labels v \<longrightarrow> v \<le> l)"
      unfolding Let_def labels_def [symmetric]
      using mode_label_spec [OF ne] by blast
  qed
qed

theorem hard_vote_majority_witness:
  "compute_vote ''hard''
     (slice_to 3 [[[1, 0, 0], [1, 0, 0]], [[1, 0, 0], [0, 1, 0]],
                  [[0, 1, 0], [0, 0, 1]], [[0, 0, 1], [0, 0, 1]]]) = Inr [0, 0]"
proof -
  let ?outs = "[[[1, 0, 0], [1, 0, 0]], [[1, 0, 0], [0, 1, 0]],
                [[0, 1, 0], [0, 0, 1]], [[0, 0, 1], [0, 0, 1]]] :: tensor3"
  let ?ms = "[[[1, 0, 0], [1, 0, 0]], [[1, 0, 0], [0, 1, 0]], [[0, 1, 0], [0, 0, 1]]] :: tensor3"
  have h1: "?ms = slice_to 3 ?outs" by (simp add: slice_to_def)
  have h2: "?ms \<noteq> []" by simp
  have h3: "\<forall>m\<in>set ?ms. length m = 2 \<and> (\<forall>row\<in>set m. row \<noteq> [])" by simp
  have "[0..<2] = [0, Suc 0]" by (simp add: upt_rec)
  then show ?thesis
    using hard_vote_majority [OF h1 h2 h3]
    by (simp add: argmax_def mode_label_def)
qed

lemma mode_label_examples:
  "mode_label [0, 0, 1] = 0" and "mode_label [0, 1, 2] = 0" and "mode_label [2, 1, 1, 2, 0] = 1"
  by (simp_all add: mode_label_def)

text \<open>
  C3. For the sub-size 1 the soft vote and the hard vote of every example are both
  the argmax label of the first member's logits.
\<close>

theorem single_member_votes_agree:
  fixes outs :: tensor3
  assumes "outs \<noteq> []" and "\<forall>row\<in>set (hd outs). row \<noteq> []"
  shows "compute_vote ''soft'' (slice_to 1 outs) = Inr (map argmax (hd outs)) \<and>
         compute_vote ''hard'' (slice_to 1 outs) = Inr (map argmax (hd outs))"
proof -
  from assms(1) obtain m rest where outs: "outs = m # rest" by (cases outs) auto
  then have sl: "slice_to 1 outs = [m]" by (simp add: slice_to_def)
  have hd: "hd outs = m" by (simp add: outs)
  have "\<not> has_empty_row [m]" using assms(2) by (auto simp: has_empty_row_iff hd)
  then show ?thesis
    unfolding sl hd by (simp add: compute_vote_def soft_vote_single hard_vote_single)
qed

theorem single_member_votes_agree_witness:
  "compute_vote ''soft'' (slice_to 1 [[[1, 3, 2], [5, 0, 5]], [[0, 0, 9], [0, 7, 0]]]) = Inr [1, 0] \<and>
   compute_vote ''hard'' (slice_to 1 [[[1, 3, 2], [5, 0, 5]], [[0, 0, 9], [0, 7, 0]]]) = Inr [1, 0]"
proof -
  let ?outs = "[[[1, 3, 2], [5, 0, 5]], [[0, 0, 9], [0, 7, 0]]] :: tensor3"
  have h1: "?outs \<noteq> []" by simp
  have h2: "\<forall>row\<in>set (hd ?outs). row \<noteq> []" by simp
  show ?thesis
    using single_member_votes_agree [OF h1 h2] by (simp add: argmax_def)
qed


section \<open>Properties of the evaluation phase\<close>

lemma cross_entropies_Inr:
  "cross_entropies xs tg = Inr ls \<Longrightarrow> ls = map (\<lambda>x. cross_entropy_val x tg) xs"
  by (induction xs arbitrary: ls)
     (auto simp: cross_entropy_def split: sum.splits if_splits)

lemma stack_losses_Inr:
  "stack_losses xs tg = Inr ls \<Longrightarrow> ls = map (\<lambda>x. cross_entropy_val x tg) xs \<and> xs \<noteq> []"
  by (auto simp: stack_losses_def split: sum.splits if_splits dest: cross_entropies_Inr)

lemma test_batch_unfold:
  "test_batch c vt n b (l, k, w) =
     (case stack_losses (slice_to n (snd (snd (batch_record c b (ext w))))) (snd b) of
        Inl e \<Rightarrow> Inl e
      | Inr losses \<Rightarrow>
          (case compute_vote vt (slice_to n (snd (snd (batch_record c b (ext w))))) of
             Inl e \<Rightarrow> Inl e
           | Inr votes \<Rightarrow>
               Inr (l + mean losses, k + count_correct votes (snd b),
                    \<lparr>calls = calls w @ batch_calls (batch_record c b (ext w)),
                     ext = after_batch c b (ext w)\<rparr>)))"
  by (simp add: test_batch_def batch_record_def after_batch_def batch_calls_def invoke_def
      perform_def Let_def split: prod.splits sum.splits)

lemma test_loop_Inr:
  "test_loop c vt n bs (l, k, w) = Inr (l', k', w') \<Longrightarrow>
     l' = l + sum_list (map2 (batch_loss n) (eval_batches c bs (ext w)) bs) \<and>
     calls w' = calls w @ concat (map batch_calls (eval_batches c bs (ext w)))"
proof (induction bs arbitrary: l k w)
  case Nil
  then show ?case by simp
next
  case (Cons b bs)
  from Cons.prems obtain l1 k1 w1 where
    step: "test_batch c vt n b (l, k, w) = Inr (l1, k1, w1)"
    and rest: "test_loop c vt n bs (l1, k1, w1) = Inr (l', k', w')"
    by (auto split: sum.splits)
  from step have l1: "l1 = l + batch_loss n (batch_record c b (ext w)) b"
    and w1: "w1 = \<lparr>calls = calls w @ batch_calls (batch_record c b (ext w)),
                   ext = after_batch c b (ext w)\<rparr>"
    by (auto simp: test_batch_unfold batch_loss_def split: sum.splits dest: stack_losses_Inr)
  from Cons.IH [OF rest] show ?case by (simp add: l1 w1)
qed


lemma bound_le_refl: "bound_le b b"
  by (cases b) (simp_all add: bound_le_def)

lemma bound_le_trans: "bound_le a b \<Longrightarrow> bound_le b c \<Longrightarrow> bound_le a c"
  by (cases a; cases b; cases c) (simp_all add: bound_le_def)

lemma update_best_loss:
  "best_test_loss (update_best l a t) =
     (if below l (best_test_loss t) then Fin l else best_test_loss t)"
  by (simp add: update_best_def Let_def)

lemma update_best_acc:
  "best_test_acc (update_best l a t) = (if best_test_acc t < a then a else best_test_acc t)"
  by (simp add: update_best_def Let_def)

lemma update_best_calls:
  "calls (env (update_best l a t)) =
     calls (env t) @ (if below l (best_test_loss t) \<or> best_test_acc t < a then [Print] else [])"
  by (simp add: update_best_def Let_def perform_def)

lemma update_best_loss_le: "bound_le (best_test_loss (update_best l a t)) (best_test_loss t)"
  by (cases "best_test_loss t") (simp_all add: update_best_loss below_def bound_le_def)

lemma update_best_acc_ge: "best_test_acc t \<le> best_test_acc (update_best l a t)"
  by (simp add: update_best_acc)

lemma test_Inr:
  assumes "test c n t = Inr ((loss, acc, k), t')"
  obtains ld l w where "data_test t = Some ld" and "dataset_len ld \<noteq> 0"
    and "test_loop c (vote t) n (batches ld) (0, 0, perform EvalMode (eval_mode c) (env t)) = Inr (l, k, w)"
    and "loss = l / real (dataset_len ld)" and "acc = real k / real (dataset_len ld)"
    and "t' = update_best loss acc (t\<lparr>env := perform TrainMode (train_mode c) w\<rparr>)"
  using assms by (auto simp: test_def Let_def split: option.splits sum.splits if_splits)

lemma train_batch_best:
  "best_test_loss (train_batch c epoch i b t) = best_test_loss t \<and>
   best_test_acc (train_batch c epoch i b t) = best_test_acc t"
  by (simp add: train_batch_def split: prod.splits)

lemma train_batches_best:
  "best_test_loss (train_batches c epoch i bs t) = best_test_loss t \<and>
   best_test_acc (train_batches c epoch i bs t) = best_test_acc t"
  by (induction bs arbitrary: i t) (simp_all add: train_batch_best)

lemma uncertainty_step_best:
  "uncertainty_step c epoch m t = Inr t' \<Longrightarrow>
   best_test_loss t' = best_test_loss t \<and> best_test_acc t' = best_test_acc t"
  by (auto simp: uncertainty_step_def split: option.splits prod.splits)

lemma uncertainty_loop_best:
  "uncertainty_loop c epoch ms t = Inr t' \<Longrightarrow>
   best_test_loss t' = best_test_loss t \<and> best_test_acc t' = best_test_acc t"
proof (induction ms arbitrary: t)
  case Nil
  then show ?case by simp
next
  case (Cons m ms)
  from Cons.prems obtain t1 where 1: "uncertainty_step c epoch m t = Inr t1"
    and 2: "uncertainty_loop c epoch ms t1 = Inr t'" by (auto split: sum.splits)
  from Cons.IH [OF 2] uncertainty_step_best [OF 1] show ?case by simp
qed

lemma test_best:
  assumes "test c n t = Inr ((loss, acc, k), t')"
  shows "best_test_loss t' = (if below loss (best_test_loss t) then Fin loss else best_test_loss t)"
    and "best_test_acc t' = (if best_test_acc t < acc then acc else best_test_acc t)"
    and "bound_le (best_test_loss t') (best_test_loss t)"
    and "best_test_acc t \<le> best_test_acc t'"
proof -
  from assms obtain w where t': "t' = update_best loss acc (t\<lparr>env := w\<rparr>)"
    by (rule test_Inr) blast
  show "best_test_loss t' = (if below loss (best_test_loss t) then Fin loss else best_test_loss t)"
    by (simp add: t' update_best_loss)
  show "best_test_acc t' = (if best_test_acc t < acc then acc else best_test_acc t)"
    by (simp add: t' update_best_acc)
  show "bound_le (best_test_loss t') (best_test_loss t)"
    using update_best_loss_le [of loss acc "t\<lparr>env := w\<rparr>"] by (simp add: t')
  show "best_test_acc t \<le> best_test_acc t'"
    by (simp add: t' update_best_acc)
qed

lemma evaluate_as_ensemble_best:
  "evaluate_as_ensemble c ns epoch t = Inr t' \<Longrightarrow>
   bound_le (best_test_loss t') (best_test_loss t) \<and> best_test_acc t \<le> best_test_acc t'"
proof (induction ns arbitrary: t)
  case Nil
  then show ?case by (simp add: bound_le_refl)
next
  case (Cons n ns)
  from Cons.prems obtain loss acc k t1 where 1: "test c n t = Inr ((loss, acc, k), t1)"
    and 2: "evaluate_as_ensemble c ns epoch
              (t1\<lparr>env := perform Print id (perform Print id (env t1))\<rparr>) = Inr t'"
    by (auto split: sum.splits)
  from Cons.IH [OF 2] test_best(3,4) [OF 1] show ?case
    by (auto intro: bound_le_trans)
qed

lemma train_epoch_best:
  assumes "train_epoch c epoch t = Inr t'"
  shows "bound_le (best_test_loss t') (best_test_loss t) \<and> best_test_acc t \<le> best_test_acc t'"
proof -
  from assms obtain ld t2 where "data_train t = Some ld" and
    ev: "evaluate_as_ensemble c (ens_sizes (train_batches c epoch 0 (batches ld) t)) epoch
           (train_batches c epoch 0 (batches ld) t) = Inr t2"
    and fin: "(if test_uncertainty t2 then uncertainty_loop c epoch [5, 10, particles t2] t2
               else Inr t2) = Inr t'"
    by (auto simp: train_epoch_def Let_def split: option.splits sum.splits)
  have eq: "best_test_loss t' = best_test_loss t2 \<and> best_test_acc t' = best_test_acc t2"
  proof (cases "test_uncertainty t2")
    case True
    with fin have "uncertainty_loop c epoch [5, 10, particles t2] t2 = Inr t'" by simp
    then show ?thesis by (rule uncertainty_loop_best)
  next
    case False
    with fin show ?thesis by simp
  qed
  from evaluate_as_ensemble_best [OF ev] eq show ?thesis
    by (simp add: train_batches_best)
qed

lemma train_epochs_best:
  "train_epochs c es t = Inr t' \<Longrightarrow>
   bound_le (best_test_loss t') (best_test_loss t) \<and> best_test_acc t \<le> best_test_acc t'"
proof (induction es arbitrary: t)
  case Nil
  then show ?case by (simp add: bound_le_refl)
next
  case (Cons e es)
  from Cons.prems obtain t1 where 1: "train_epoch c e t = Inr t1"
    and 2: "train_epochs c es t1 = Inr t'" by (auto split: sum.splits)
  from Cons.IH [OF 2] train_epoch_best [OF 1] show ?case
    by (auto intro: bound_le_trans)
qed

lemma train_best:
  assumes "train c t = Inr t'"
  shows "bound_le (best_test_loss t') (best_test_loss t) \<and> best_test_acc t \<le> best_test_acc t'"
  using train_epochs_best [OF assms [unfolded train_def]] by simp

lemma ln_half: "ln (1 / 2 :: real) = - ln 2"
  by (simp add: ln_div)

lemmas demo_defs = demo_trainer_def demo_collab_def demo_args_def demo_world_def demo_loader_def
  init_def select_dataset_def invoke_def perform_def hypernetwork_args_def estimator_args_def

lemmas eval_defs = test_def test_batch_def slice_to_def stack_losses_def cross_entropy_def
  cross_entropy_val_def softmax_def compute_vote_def has_empty_row_def hard_vote_def soft_vote_def
  argmax_def mode_label_def mean_def count_correct_def update_best_def below_def ln_half

lemma demo_test:
  "test demo_collab 2 demo_trainer =
     Inr ((2 * ln 2 / 3, 2 / 3, 2), snd (projr (test demo_collab 2 demo_trainer)))"
  by (simp add: demo_defs eval_defs Let_def)

text \<open>
  C4. The test loss returned by one evaluation pass is the sum, over the test batches,
  of the mean across the first \<open>ens_size\<close> members of the members' cross-entropies on
  the batch, divided once by the number of examples of the test dataset. On the
  concrete run the value is \<open>2 ln 2 / 3\<close>, where every example has the loss \<open>ln 2\<close>.
\<close>

theorem test_loss_sum_of_batch_means:
  assumes "test c n t = Inr ((loss, acc, k), t')" and "data_test t = Some ld"
  shows "loss = sum_list (map2 (batch_loss n)
                   (eval_batches c (batches ld) (eval_mode c (ext (env t)))) (batches ld))
                / real (dataset_len ld)"
proof -
  from assms(1) obtain ld' l w where ld': "data_test t = Some ld'"
    and loop: "test_loop c (vote t) n (batches ld') (0, 0, perform EvalMode (eval_mode c) (env t)) = Inr (l, k, w)"
    and loss: "loss = l / real (dataset_len ld')"
    by (rule test_Inr)
  from ld' assms(2) have eq: "ld' = ld" by simp
  from test_loop_Inr [OF loop] loss show ?thesis by (simp add: eq perform_def)
qed

theorem test_loss_sum_of_batch_means_witness:
  "test demo_collab 2 demo_trainer =
     Inr ((2 * ln 2 / 3, 2 / 3, 2), snd (projr (test demo_collab 2 demo_trainer))) \<and>
   data_test demo_trainer = Some demo_loader \<and>
   2 * ln 2 / 3 =
     sum_list (map2 (batch_loss 2)
        (eval_batches demo_collab (batches demo_loader)
           (eval_mode demo_collab (ext (env demo_trainer)))) (batches demo_loader))
       / real (dataset_len demo_loader)"
proof -
  have dt: "data_test demo_trainer = Some demo_loader" by (simp add: demo_defs)
  show ?thesis
    by (intro conjI demo_test dt test_loss_sum_of_batch_means [OF demo_test dt])
qed

lemma test_loss_not_example_average:
  "fst (fst (projr (test demo_collab 2 demo_trainer))) = 2 * ln 2 / 3 \<and>
   example_average_loss 2 (eval_batches demo_collab (batches demo_loader) 0)
     (batches demo_loader) (dataset_len demo_loader) = ln 2 \<and>
   2 * ln 2 / 3 \<noteq> ln (2 :: real)"
proof -
  have "fst (fst (projr (test demo_collab 2 demo_trainer))) = 2 * ln 2 / 3"
    using demo_test by (metis fst_conv sum.sel(2))
  moreover have "example_average_loss 2 (eval_batches demo_collab (batches demo_loader) 0)
     (batches demo_loader) (dataset_len demo_loader) = ln 2"
    by (simp add: example_average_loss_def batch_loss_def batch_record_def after_batch_def
        demo_collab_def demo_loader_def slice_to_def cross_entropy_val_def softmax_def mean_def ln_half)
  moreover have "2 * ln 2 / 3 \<noteq> ln (2 :: real)"
  proof -
    have "0 < ln (2 :: real)" by simp
    then show ?thesis by linarith
  qed
  ultimately show ?thesis by blast
qed

text \<open>
  C2. An evaluation call that returns leaves \<open>best_test_loss\<close> at most its previous value
  and \<open>best_test_acc\<close> at least its previous value, and overwrites each exactly when the
  new test loss is smaller, respectively the new accuracy larger. A training
  mini-batch and an uncertainty step leave both fields as they are, and so a whole
  run that returns ends with a best loss no larger and a best accuracy no smaller
  than it started with.
\<close>

theorem best_metrics_monotone:
  "(test c n t = Inr ((loss, acc, k), t1) \<longrightarrow>
      bound_le (best_test_loss t1) (best_test_loss t) \<and>
      best_test_acc t \<le> best_test_acc t1 \<and>
      best_test_loss t1 = (if below loss (best_test_loss t) then Fin loss else best_test_loss t) \<and>
      best_test_acc t1 = (if best_test_acc t < acc then acc else best_test_acc t)) \<and>
   best_test_loss (train_batch c epoch i b t) = best_test_loss t \<and>
   best_test_acc (train_batch c epoch i b t) = best_test_acc t \<and>
   (uncertainty_step c epoch m t = Inr t2 \<longrightarrow>
      best_test_loss t2 = best_test_loss t \<and> best_test_acc t2 = best_test_acc t) \<and>
   (train c t = Inr t3 \<longrightarrow>
      bound_le (best_test_loss t3) (best_test_loss t) \<and> best_test_acc t \<le> best_test_acc t3)"
proof (intro conjI impI)
  assume ev: "test c n t = Inr ((loss, acc, k), t1)"
  show "bound_le (best_test_loss t1) (best_test_loss t)" by (rule test_best(3) [OF ev])
  show "best_test_acc t \<le> best_test_acc t1" by (rule test_best(4) [OF ev])
  show "best_test_loss t1 = (if below loss (best_test_loss t) then Fin loss else best_test_loss t)"
    by (rule test_best(1) [OF ev])
  show "best_test_acc t1 = (if best_test_acc t < acc then acc else best_test_acc t)"
    by (rule test_best(2) [OF ev])
next
  show "best_test_loss (train_batch c epoch i b t) = best_test_loss t"
    by (simp add: train_batch_best)
  show "best_test_acc (train_batch c epoch i b t) = best_test_acc t"
    by (simp add: train_batch_best)
next
  assume u: "uncertainty_step c epoch m t = Inr t2"
  show "best_test_loss t2 = best_test_loss t" using uncertainty_step_best [OF u] by simp
  show "best_test_acc t2 = best_test_acc t" using uncertainty_step_best [OF u] by simp
next
  assume tr: "train c t = Inr t3"
  show "bound_le (best_test_loss t3) (best_test_loss t)" using train_best [OF tr] by simp
  show "best_test_acc t \<le> best_test_acc t3" using train_best [OF tr] by simp
qed

lemmas train_defs = train_def train_epoch_def train_batch_def ens_sizes_def uncertainty_step_def

lemma demo_uncertainty_step:
  "uncertainty_step demo_collab 0 5 (demo_trainer\<lparr>epochs := 1\<rparr>) =
     Inr (projr (uncertainty_step demo_collab 0 5 (demo_trainer\<lparr>epochs := 1\<rparr>)))"
  by (simp add: demo_defs uncertainty_step_def)

lemma demo_test1:
  "test demo_collab 2 (demo_trainer\<lparr>epochs := 1\<rparr>) =
     Inr ((2 * ln 2 / 3, 2 / 3, 2), snd (projr (test demo_collab 2 (demo_trainer\<lparr>epochs := 1\<rparr>))))"
  by (simp add: demo_defs eval_defs Let_def)

lemma demo_train:
  "train demo_collab (demo_trainer\<lparr>epochs := 1\<rparr>) =
     Inr (projr (train demo_collab (demo_trainer\<lparr>epochs := 1\<rparr>)))"
  by (simp add: demo_defs eval_defs train_defs Let_def)


theorem best_metrics_monotone_witness:
  "test demo_collab 2 (demo_trainer\<lparr>epochs := 1\<rparr>) =
     Inr ((2 * ln 2 / 3, 2 / 3, 2), snd (projr (test demo_collab 2 (demo_trainer\<lparr>epochs := 1\<rparr>)))) \<and>
   uncertainty_step demo_collab 0 5 (demo_trainer\<lparr>epochs := 1\<rparr>) =
     Inr (projr (uncertainty_step demo_collab 0 5 (demo_trainer\<lparr>epochs := 1\<rparr>))) \<and>
   train demo_collab (demo_trainer\<lparr>epochs := 1\<rparr>) =
     Inr (projr (train demo_collab (demo_trainer\<lparr>epochs := 1\<rparr>))) \<and>
   best_test_loss (snd (projr (test demo_collab 2 (demo_trainer\<lparr>epochs := 1\<rparr>)))) = Fin (2 * ln 2 / 3) \<and>
   best_test_acc (snd (projr (test demo_collab 2 (demo_trainer\<lparr>epochs := 1\<rparr>)))) = 2 / 3 \<and>
   best_test_loss (projr (uncertainty_step demo_collab 0 5 (demo_trainer\<lparr>epochs := 1\<rparr>))) = PosInf \<and>
   bound_le (best_test_loss (projr (train demo_collab (demo_trainer\<lparr>epochs := 1\<rparr>)))) PosInf \<and>
   0 \<le> best_test_acc (projr (train demo_collab (demo_trainer\<lparr>epochs := 1\<rparr>)))"
proof -
  have b: "best_test_loss (demo_trainer\<lparr>epochs := 1\<rparr>) = PosInf"
    "best_test_acc (demo_trainer\<lparr>epochs := 1\<rparr>) = 0"
    by (simp_all add: demo_defs)
  note inst = best_metrics_monotone [where c = demo_collab and n = 2
      and t = "demo_trainer\<lparr>epochs := 1\<rparr>" and loss = "2 * ln 2 / 3" and acc = "2 / 3" and k = 2
      and ?t1.0 = "snd (projr (test demo_collab 2 (demo_trainer\<lparr>epochs := 1\<rparr>)))"
      and m = 5 and epoch = 0
      and ?t2.0 = "projr (uncertainty_step demo_collab 0 5 (demo_trainer\<lparr>epochs := 1\<rparr>))"
      and ?t3.0 = "projr (train demo_collab (demo_trainer\<lparr>epochs := 1\<rparr>))"]
  from inst demo_test1 demo_uncertainty_step demo_train show ?thesis
    unfolding b by (simp add: below_def)
qed


lemma count_batch_calls:
  "count_list (concat (map batch_calls rs)) SampleGeneratorInput = length rs"
  by (induction rs) (simp_all add: batch_calls_def)

lemma length_eval_batches: "length (eval_batches c bs e) = length bs"
  by (induction bs arbitrary: e) simp_all

text \<open>
  C10. One evaluation pass that returns has made, between switching to evaluation
  mode and back, exactly one group of calls per test batch: draw latents, generate
  the ensemble from these latents, install that ensemble, run the network on the
  batch. There are as many draws as test batches. On the concrete run, whose draws
  differ, the two test batches are scored by the ensembles \<open>0\<close> and \<open>1\<close>.
\<close>

theorem fresh_ensemble_per_test_batch:
  assumes "test c n t = Inr ((loss, acc, k), t')" and "data_test t = Some ld"
  shows "calls (env t') =
           calls (env t) @ [EvalMode] @
           concat (map batch_calls (eval_batches c (batches ld) (eval_mode c (ext (env t))))) @
           [TrainMode] @
           (if below loss (best_test_loss t) \<or> best_test_acc t < acc then [Print] else []) \<and>
         length (eval_batches c (batches ld) (eval_mode c (ext (env t)))) = length (batches ld) \<and>
         count_list
           (concat (map batch_calls (eval_batches c (batches ld) (eval_mode c (ext (env t))))))
           SampleGeneratorInput = length (batches ld)"
proof -
  from assms(1) obtain ld' l w where ld': "data_test t = Some ld'"
    and loop: "test_loop c (vote t) n (batches ld') (0, 0, perform EvalMode (eval_mode c) (env t)) = Inr (l, k, w)"
    and t': "t' = update_best loss acc (t\<lparr>env := perform TrainMode (train_mode c) w\<rparr>)"
    by (rule test_Inr)
  from ld' assms(2) have eq: "ld' = ld" by simp
  from test_loop_Inr [OF loop]
  have w: "calls w = calls (env t) @ [EvalMode] @
             concat (map batch_calls (eval_batches c (batches ld) (eval_mode c (ext (env t)))))"
    by (simp add: eq perform_def)
  have "calls (env t') = calls w @ [TrainMode] @
           (if below loss (best_test_loss t) \<or> best_test_acc t < acc then [Print] else [])"
    by (simp add: t' update_best_calls perform_def)
  with w show ?thesis by (simp add: count_batch_calls length_eval_batches)
qed

theorem fresh_ensemble_per_test_batch_witness:
  "test demo_collab 2 demo_trainer =
     Inr ((2 * ln 2 / 3, 2 / 3, 2), snd (projr (test demo_collab 2 demo_trainer))) \<and>
   data_test demo_trainer = Some demo_loader \<and>
   calls (env (snd (projr (test demo_collab 2 demo_trainer)))) =
     calls (env demo_trainer) @
     [EvalMode,
      SampleGeneratorInput, SampleParameters 0, SetParametersToModel 0, ForwardModel,
      SampleGeneratorInput, SampleParameters 1, SetParametersToModel 1, ForwardModel,
      TrainMode, Print]"
proof -
  have dt: "data_test demo_trainer = Some demo_loader" by (simp add: demo_defs)
  have b: "best_test_loss demo_trainer = PosInf" "ext (env demo_trainer) = 0"
    by (simp_all add: demo_defs)
  have ev: "eval_batches demo_collab (batches demo_loader) (eval_mode demo_collab 0) =
    [(0, 0, transpose [[[0, 0], [0, 0]], [[0, 0], [0, 0]]]), (1, 1, transpose [[[0, 0], [0, 0]]])]"
    by (simp add: demo_collab_def demo_loader_def batch_record_def after_batch_def)
  from fresh_ensemble_per_test_batch [OF demo_test dt]
  have "calls (env (snd (projr (test demo_collab 2 demo_trainer)))) =
     calls (env demo_trainer) @
     [EvalMode,
      SampleGeneratorInput, SampleParameters 0, SetParametersToModel 0, ForwardModel,
      SampleGeneratorInput, SampleParameters 1, SetParametersToModel 1, ForwardModel,
      TrainMode, Print]"
    unfolding b ev by (simp add: batch_calls_def below_def del: transpose.simps)
  with demo_test dt show ?thesis by blast
qed















lemma slice_to_proper:
  "0 \<le> n \<Longrightarrow> nat n < length xs \<Longrightarrow> slice_to n xs = take (nat n) xs \<and> slice_to n xs \<noteq> xs"
  by (auto simp: slice_to_def dest: arg_cong [where f = length])



text \<open>
  A sub-size below the number of particles is outside that condition and is a proper
  sub-ensemble: the slice keeps the first members only. With seven particles the five
  members kept by the sub-size 5 vote \<open>0\<close>, the seven members vote \<open>1\<close>, and the two
  evaluations count different numbers of correct predictions.
\<close>

lemma exp_one_order:
  "1 / (1 + exp 1) < exp 1 / (1 + exp (1 :: real))"
  "\<not> exp 1 / (exp 1 + 1) < 1 / (exp 1 + (1 :: real))"
proof -
  have pos: "0 < 1 + exp (1 :: real)" by (simp add: add_pos_pos)
  have gt: "1 < exp (1 :: real)" by simp
  from gt pos show "1 / (1 + exp 1) < exp 1 / (1 + exp (1 :: real))"
    by (rule divide_strict_right_mono)
  then show "\<not> exp 1 / (exp 1 + 1) < 1 / (exp 1 + (1 :: real))"
    by (simp add: add.commute)
qed

lemma seven_correct_5:
  "map_sum id (\<lambda>r. snd (snd (fst r))) (test demo_collab 5 seven_trainer) = Inr 0"
  by (simp add: seven_trainer_def seven_loader_def demo_defs eval_defs Let_def exp_one_order)

lemma seven_correct_7:
  "map_sum id (\<lambda>r. snd (snd (fst r))) (test demo_collab 7 seven_trainer) = Inr 1"
  by (simp add: seven_trainer_def seven_loader_def demo_defs eval_defs Let_def exp_one_order)

lemma sub_size_five_of_seven_is_proper:
  "particles seven_trainer = 7 \<and> 5 \<in> set (ens_sizes seven_trainer) \<and>
   test demo_collab 5 seven_trainer \<noteq> test demo_collab (particles seven_trainer) seven_trainer"
proof -
  have p: "particles seven_trainer = 7" by (simp add: seven_trainer_def)
  have e: "test_ensemble seven_trainer" by (simp add: seven_trainer_def demo_defs)
  have "test demo_collab 5 seven_trainer \<noteq> test demo_collab 7 seven_trainer"
  proof
    assume "test demo_collab 5 seven_trainer = test demo_collab 7 seven_trainer"
    with seven_correct_5 seven_correct_7 show False by simp
  qed
  with p e show ?thesis by (simp add: ens_sizes_def)
qed

section \<open>Properties of the constructor and of the training loop\<close>

lemma init_returns:
  "\<exists>t. init c a w = Inr t"
  by (simp add: init_def Let_def split: prod.splits)

lemma select_dataset_calls:
  "calls (snd (select_dataset c name w)) =
     calls w @ (if name = ''mnist'' then [LoadMnist]
                else if name = ''cifar'' then [LoadCifar] else [])"
  by (simp add: select_dataset_def invoke_def split: prod.splits)

lemma init_calls:
  assumes "init c a w = Inr t"
  shows "calls (env t) =
     calls w @
     [ManualSeed 8734, NewHyperNetwork (hypernetwork_args a), SetTargetArchitecture,
      SetHypernetworkMixer, SetHypernetworkLayers, PrintArchitecture,
      AttachOptimizers (5 / 1000) (1 / 10000), NewGradientEstimator (estimator_args a)] @
     (if arg_dataset a = ''mnist'' then [LoadMnist]
      else if arg_dataset a = ''cifar'' then [LoadCifar] else [])"
proof -
  define w8 where "w8 =
    perform (NewGradientEstimator (estimator_args a)) (new_grad_estimator c (estimator_args a))
     (perform (AttachOptimizers (5 / 1000) (1 / 10000)) (attach_optimizers c (5 / 1000) (1 / 10000))
      (perform PrintArchitecture (print_architecture c)
       (perform SetHypernetworkLayers (set_hypernetwork_layers c)
        (perform SetHypernetworkMixer (set_hypernetwork_mixer c)
         (perform SetTargetArchitecture (set_target_architecture c)
          (perform (NewHyperNetwork (hypernetwork_args a)) (new_hypernetwork c (hypernetwork_args a))
           (perform (ManualSeed 8734) (manual_seed c 8734) w)))))))"
  have c8: "calls w8 = calls w @
     [ManualSeed 8734, NewHyperNetwork (hypernetwork_args a), SetTargetArchitecture,
      SetHypernetworkMixer, SetHypernetworkLayers, PrintArchitecture,
      AttachOptimizers (5 / 1000) (1 / 10000), NewGradientEstimator (estimator_args a)]"
    by (simp add: w8_def perform_def)
  from assms have "env t = snd (select_dataset c (arg_dataset a) w8)"
    by (auto simp: init_def Let_def w8_def split: prod.splits)
  then show ?thesis by (simp add: select_dataset_calls c8)
qed





lemma train_batches_log_every_100:
  "length (filter (\<lambda>k. k = PrintStatistics) (calls (env (train_batches c epoch i bs t)))) =
   length (filter (\<lambda>k. k = PrintStatistics) (calls (env t))) +
   length (filter (\<lambda>j. j mod 100 = 0) [i..<i + length bs])"
proof (induction bs arbitrary: i t)
  case Nil
  then show ?case by simp
next
  case (Cons b bs)
  have step: "length (filter (\<lambda>k. k = PrintStatistics) (calls (env (train_batch c epoch i b t)))) =
    length (filter (\<lambda>k. k = PrintStatistics) (calls (env t))) + (if i mod 100 = 0 then 1 else 0)"
    by (simp add: train_batch_def invoke_def perform_def split: prod.splits)
  have "[i..<i + length (b # bs)] = i # [Suc i..<Suc i + length bs]"
    by (simp add: upt_rec)
  then show ?case by (simp add: Cons.IH step)
qed


lemma init_fields:
  assumes "init c a w = Inr t"
  shows "dataset t = arg_dataset a" and "vote t = arg_vote a" and "epochs t = 200"
    and "grad_estimator t = estimator_args a" and "particles t = arg_num_particles a"
    and "best_test_acc t = 0" and "best_test_loss t = PosInf"
  using assms by (auto simp: init_def Let_def split: prod.splits)

lemma init_unsupported_dataset:
  assumes "init c a w = Inr t" and "arg_dataset a \<noteq> ''mnist''" and "arg_dataset a \<noteq> ''cifar''"
  shows "data_train t = None" and "data_test t = None"
    and "uncertainty_fn t = None" and "plot_fn t = None"
  using assms by (auto simp: init_def Let_def select_dataset_def split: prod.splits)

lemma train_unset_data:
  assumes "data_train t = None" and "0 < epochs t"
  shows "train c t = Inl AttributeError"
proof -
  from assms(2) have "[0..<epochs t] = 0 # [Suc 0..<epochs t]" by (simp add: upt_rec)
  then show ?thesis by (simp add: train_def train_epoch_def assms(1))
qed

lemma compute_vote_unsupported:
  "v \<noteq> ''soft'' \<Longrightarrow> v \<noteq> ''hard'' \<Longrightarrow> compute_vote v outs = Inl UnboundLocalError"
  by (simp add: compute_vote_def)

lemma cross_entropies_error:
  "cross_entropies xs tg = Inl e \<Longrightarrow> e = ValueError \<or> e = IndexError"
  by (induction xs) (auto simp: cross_entropy_def split: sum.splits if_splits)

lemma stack_losses_error:
  "stack_losses xs tg = Inl e \<Longrightarrow> e = ValueError \<or> e = IndexError \<or> e = RuntimeError"
  by (auto simp: stack_losses_def split: sum.splits if_splits dest: cross_entropies_error)

lemma test_batch_unsupported:
  assumes "v \<noteq> ''soft''" and "v \<noteq> ''hard''"
  shows "\<exists>e. test_batch c v n b acc = Inl e \<and>
             (e = UnboundLocalError \<or> e = ValueError \<or> e = IndexError \<or> e = RuntimeError)"
proof -
  obtain l k w where acc: "acc = (l, k, w)" by (cases acc)
  show ?thesis
    unfolding acc test_batch_unfold
    using assms stack_losses_error
    by (auto simp: compute_vote_unsupported split: sum.splits)
qed

lemma test_unsupported:
  assumes "vote t \<noteq> ''soft''" and "vote t \<noteq> ''hard''"
    and "data_test t = Some ld" and "batches ld \<noteq> []"
  shows "\<exists>e. test c n t = Inl e \<and>
             (e = UnboundLocalError \<or> e = ValueError \<or> e = IndexError \<or> e = RuntimeError)"
proof -
  from assms(4) obtain b bs where bs: "batches ld = b # bs" by (cases "batches ld") auto
  from test_batch_unsupported [OF assms(1,2)]
  obtain e where e: "test_batch c (vote t) n b (0, 0, perform EvalMode (eval_mode c) (env t)) = Inl e"
    and k: "e = UnboundLocalError \<or> e = ValueError \<or> e = IndexError \<or> e = RuntimeError"
    by blast
  have "test c n t = Inl e" by (simp add: test_def assms(3) bs e)
  with k show ?thesis by blast
qed

lemma train_batch_frame:
  "vote (train_batch c epoch i b t) = vote t"
  "data_test (train_batch c epoch i b t) = data_test t"
  "test_ensemble (train_batch c epoch i b t) = test_ensemble t"
  "particles (train_batch c epoch i b t) = particles t"
  by (simp_all add: train_batch_def split: prod.splits)

lemma train_batches_frame:
  "vote (train_batches c epoch i bs t) = vote t \<and>
   data_test (train_batches c epoch i bs t) = data_test t \<and>
   test_ensemble (train_batches c epoch i bs t) = test_ensemble t \<and>
   particles (train_batches c epoch i bs t) = particles t"
  by (induction bs arbitrary: i t) (simp_all add: train_batch_frame)

lemma ens_sizes_Cons: "ens_sizes t = hd (ens_sizes t) # tl (ens_sizes t)"
  by (simp add: ens_sizes_def)

lemma train_first_evaluation:
  assumes "data_train t = Some tr" and "0 < epochs t"
    and "test c (hd (ens_sizes t))
           (train_batches c 0 0 (batches tr) (t\<lparr>env := perform Print id (env t)\<rparr>)) = Inl e"
  shows "train c t = Inl e"
proof -
  let ?t1 = "train_batches c 0 0 (batches tr) (t\<lparr>env := perform Print id (env t)\<rparr>)"
  from assms(2) have up: "[0..<epochs t] = 0 # [Suc 0..<epochs t]" by (simp add: upt_rec)
  have es: "ens_sizes ?t1 = ens_sizes t"
    using train_batches_frame [of c 0 0 "batches tr" "t\<lparr>env := perform Print id (env t)\<rparr>"]
    by (simp add: ens_sizes_def)
  have "evaluate_as_ensemble c (ens_sizes ?t1) 0 ?t1 = Inl e"
    unfolding es by (subst ens_sizes_Cons) (simp add: assms(3))
  then have "train_epoch c 0 (t\<lparr>env := perform Print id (env t)\<rparr>) = Inl e"
    by (simp add: train_epoch_def assms(1) Let_def)
  then show ?thesis by (simp add: train_def up)
qed

text \<open>
  C5 (amended). The constructor returns for every dataset string and every vote
  string. A dataset string other than \<^verbatim>\<open>'mnist'\<close> and \<^verbatim>\<open>'cifar'\<close> leaves the loaders unset,
  and the run stops with \<^verbatim>\<open>AttributeError\<close> when \<^verbatim>\<open>train\<close> first reads the training data. A
  vote string other than \<^verbatim>\<open>'soft'\<close> and \<^verbatim>\<open>'hard'\<close> is not looked at before the first
  evaluation: the run stops in the first test batch of the first evaluation call,
  made on the trainer that has been through the first epoch's training batches, with
  \<^verbatim>\<open>UnboundLocalError\<close> or with the error of that batch's losses.
\<close>

theorem unsupported_names_fail_late:
  "\<exists>t. init c a w = Inr t \<and> dataset t = arg_dataset a \<and> vote t = arg_vote a \<and>
     (arg_dataset a \<noteq> ''mnist'' \<and> arg_dataset a \<noteq> ''cifar'' \<longrightarrow>
        data_train t = None \<and> data_test t = None \<and> main c a w = Inl AttributeError) \<and>
     (arg_vote a \<noteq> ''soft'' \<and> arg_vote a \<noteq> ''hard'' \<longrightarrow>
        (\<forall>outs. compute_vote (vote t) outs = Inl UnboundLocalError) \<and>
        (\<forall>tr te. data_train t = Some tr \<and> data_test t = Some te \<and> batches te \<noteq> [] \<longrightarrow>
           (\<exists>e. main c a w = Inl e \<and>
                test c (hd (ens_sizes t))
                  (train_batches c 0 0 (batches tr) (t\<lparr>env := perform Print id (env t)\<rparr>)) = Inl e \<and>
                (e = UnboundLocalError \<or> e = ValueError \<or> e = IndexError \<or> e = RuntimeError))))"
proof -
  from init_returns obtain t where t: "init c a w = Inr t" by blast
  have m: "main c a w = train c t" by (simp add: main_def t)
  have ep: "0 < epochs t" by (simp add: init_fields(3) [OF t])
  have d: "arg_dataset a \<noteq> ''mnist'' \<and> arg_dataset a \<noteq> ''cifar'' \<longrightarrow>
        data_train t = None \<and> data_test t = None \<and> main c a w = Inl AttributeError"
  proof
    assume "arg_dataset a \<noteq> ''mnist'' \<and> arg_dataset a \<noteq> ''cifar''"
    then have n: "data_train t = None" "data_test t = None"
      using init_unsupported_dataset [OF t] by simp_all
    with train_unset_data [OF n(1) ep] show
      "data_train t = None \<and> data_test t = None \<and> main c a w = Inl AttributeError"
      by (simp add: m)
  qed
  have v: "arg_vote a \<noteq> ''soft'' \<and> arg_vote a \<noteq> ''hard'' \<longrightarrow>
        (\<forall>outs. compute_vote (vote t) outs = Inl UnboundLocalError) \<and>
        (\<forall>tr te. data_train t = Some tr \<and> data_test t = Some te \<and> batches te \<noteq> [] \<longrightarrow>
           (\<exists>e. main c a w = Inl e \<and>
                test c (hd (ens_sizes t))
                  (train_batches c 0 0 (batches tr) (t\<lparr>env := perform Print id (env t)\<rparr>)) = Inl e \<and>
                (e = UnboundLocalError \<or> e = ValueError \<or> e = IndexError \<or> e = RuntimeError)))"
  proof (intro impI conjI allI)
    assume "arg_vote a \<noteq> ''soft'' \<and> arg_vote a \<noteq> ''hard''"
    then have vt: "vote t \<noteq> ''soft''" "vote t \<noteq> ''hard''"
      by (simp_all add: init_fields(2) [OF t])
    fix outs show "compute_vote (vote t) outs = Inl UnboundLocalError"
      using vt by (rule compute_vote_unsupported)
    fix tr te assume h: "data_train t = Some tr \<and> data_test t = Some te \<and> batches te \<noteq> []"
    let ?t1 = "train_batches c 0 0 (batches tr) (t\<lparr>env := perform Print id (env t)\<rparr>)"
    have fr: "vote ?t1 = vote t" "data_test ?t1 = data_test t"
      using train_batches_frame [of c 0 0 "batches tr" "t\<lparr>env := perform Print id (env t)\<rparr>"]
      by simp_all
    have "\<exists>e. test c (hd (ens_sizes t)) ?t1 = Inl e \<and>
             (e = UnboundLocalError \<or> e = ValueError \<or> e = IndexError \<or> e = RuntimeError)"
      using vt h by (intro test_unsupported [where ld = te]) (simp_all add: fr)
    then obtain e where e: "test c (hd (ens_sizes t)) ?t1 = Inl e"
      and k: "e = UnboundLocalError \<or> e = ValueError \<or> e = IndexError \<or> e = RuntimeError"
      by blast
    from h have "train c t = Inl e" by (intro train_first_evaluation [OF _ ep e]) simp
    with e k show "\<exists>e. main c a w = Inl e \<and> test c (hd (ens_sizes t)) ?t1 = Inl e \<and>
                (e = UnboundLocalError \<or> e = ValueError \<or> e = IndexError \<or> e = RuntimeError)"
      by (auto simp: m)
  qed
  from t init_fields(1,2) [OF t] d v show ?thesis by blast
qed

text \<open>
  The claim as first stated fails: for an unsupported dataset and an unsupported vote
  string the constructor does not raise.
\<close>

theorem unsupported_names_counterexample:
  "\<not> isl (init demo_collab (demo_args\<lparr>arg_dataset := ''svhn'', arg_vote := ''majority''\<rparr>)
            demo_world)"
  by (simp add: init_def Let_def split: prod.splits)

lemma demo_bad_vote_first_test:
  "test demo_collab 1
     (train_batches demo_collab 0 0 (batches demo_loader)
        (projr (init demo_collab (demo_args\<lparr>arg_vote := ''majority''\<rparr>) demo_world)
           \<lparr>env := perform Print id
              (env (projr (init demo_collab (demo_args\<lparr>arg_vote := ''majority''\<rparr>) demo_world)))\<rparr>))
   = Inl UnboundLocalError"
  by (simp add: demo_defs eval_defs train_defs Let_def)

theorem unsupported_names_fail_late_witness:
  "main demo_collab (demo_args\<lparr>arg_dataset := ''svhn''\<rparr>) demo_world = Inl AttributeError \<and>
   main demo_collab (demo_args\<lparr>arg_vote := ''majority''\<rparr>) demo_world = Inl UnboundLocalError"
proof
  from unsupported_names_fail_late
    [of demo_collab "demo_args\<lparr>arg_dataset := ''svhn''\<rparr>" demo_world]
  show "main demo_collab (demo_args\<lparr>arg_dataset := ''svhn''\<rparr>) demo_world = Inl AttributeError"
    by (auto simp: demo_args_def)
next
  let ?a = "demo_args\<lparr>arg_vote := ''majority''\<rparr>"
  from unsupported_names_fail_late [of demo_collab ?a demo_world]
  obtain t where t: "init demo_collab ?a demo_world = Inr t"
    and v: "\<forall>tr te. data_train t = Some tr \<and> data_test t = Some te \<and> batches te \<noteq> [] \<longrightarrow>
           (\<exists>e. main demo_collab ?a demo_world = Inl e \<and>
                test demo_collab (hd (ens_sizes t))
                  (train_batches demo_collab 0 0 (batches tr) (t\<lparr>env := perform Print id (env t)\<rparr>)) = Inl e \<and>
                (e = UnboundLocalError \<or> e = ValueError \<or> e = IndexError \<or> e = RuntimeError))"
    by (auto simp: demo_args_def)
  have tp: "t = projr (init demo_collab ?a demo_world)" by (simp add: t)
  have d: "data_train t = Some demo_loader" "data_test t = Some demo_loader"
    "batches demo_loader \<noteq> []" "hd (ens_sizes t) = 1"
    unfolding tp by (simp_all add: demo_defs ens_sizes_def)
  from v d obtain e where m: "main demo_collab ?a demo_world = Inl e"
    and e: "test demo_collab 1
              (train_batches demo_collab 0 0 (batches demo_loader)
                 (t\<lparr>env := perform Print id (env t)\<rparr>)) = Inl e"
    by (metis (no_types, lifting))
  from e demo_bad_vote_first_test have "e = UnboundLocalError" unfolding tp by simp
  with m show "main demo_collab ?a demo_world = Inl UnboundLocalError" by simp
qed

lemma scale_one: "scale 1 v = v"
  by (simp add: scale_def)

lemma map_scale_one: "map (scale 1) vs = vs"
  by (simp add: scale_one cong: map_cong)

section \<open>Properties of the gradient estimator\<close>

text \<open>
  C6. The trainer constructs its estimator with \<open>alpha = 1\<close> and the mode given on the
  command line. In the mode \<^verbatim>\<open>'naive'\<close> the corrected gradients are the particles' own
  data-loss gradients, entry by entry.
\<close>

theorem naive_gradient_is_own_gradient:
  assumes "init c a w = Inr t" and "arg_grad a = ''naive''"
    and "thetas \<noteq> []" and "length grads = length thetas"
  shows "est_mode (grad_estimator t) = ''naive'' \<and> est_alpha (grad_estimator t) = 1 \<and>
         NewGradientEstimator (grad_estimator t) \<in> set (calls (env t)) \<and>
         corrected_gradients (grad_estimator t) h_min thetas grads = Inr grads \<and>
         (\<forall>i<length grads. \<forall>r. corrected_gradients (grad_estimator t) h_min thetas grads = Inr r
             \<longrightarrow> r ! i = grads ! i)"
proof -
  have g: "grad_estimator t = estimator_args a" by (rule init_fields(4) [OF assms(1)])
  have m: "est_mode (grad_estimator t) = ''naive''" "est_alpha (grad_estimator t) = 1"
    by (simp_all add: g estimator_args_def assms(2))
  have l: "NewGradientEstimator (grad_estimator t) \<in> set (calls (env t))"
    by (simp add: init_calls [OF assms(1)] g)
  have c: "corrected_gradients (grad_estimator t) h_min thetas grads = Inr grads"
    using assms(3,4) by (simp add: corrected_gradients_def m map_scale_one)
  from m l c show ?thesis by simp
qed

theorem naive_gradient_is_own_gradient_witness:
  "init demo_collab demo_args demo_world = Inr demo_trainer \<and>
   arg_grad demo_args = ''naive'' \<and>
   corrected_gradients (grad_estimator demo_trainer) 0 [[1, 2], [3, 4]] [[5, 6], [7, 8]]
     = Inr [[5, 6], [7, 8]]"
proof -
  have h1: "init demo_collab demo_args demo_world = Inr demo_trainer"
    by (simp add: demo_trainer_def init_def Let_def split: prod.splits)
  have h2: "arg_grad demo_args = ''naive''" by (simp add: demo_args_def)
  have h3: "[[1, 2], [3, 4 :: real]] \<noteq> []" by simp
  have h4: "length [[5, 6], [7, 8 :: real]] = length [[1, 2], [3, 4 :: real]]" by simp
  from naive_gradient_is_own_gradient [OF h1 h2 h3 h4, of 0] h1 h2
  show ?thesis by blast
qed

lemma sqdist_self: "sqdist u u = 0"
  by (induction u) (simp_all add: sqdist_def vsub_def)

lemma vsub_self: "vsub u u = replicate (length u) 0"
  by (induction u) (simp_all add: vsub_def)

lemma median_zeros:
  assumes "\<forall>x\<in>set ds. x = 0"
  shows "median ds = 0"
proof (cases "ds = []")
  case True
  then show ?thesis by (simp add: median_def)
next
  case False
  then have "(length ds - 1) div 2 < length (sort ds)" by (cases ds) auto
  then have "sort ds ! ((length ds - 1) div 2) \<in> set (sort ds)" by (rule nth_mem)
  with assms have "sort ds ! ((length ds - 1) div 2) = 0" by simp
  with False show ?thesis by (simp add: median_def)
qed

lemma bandwidth_identical:
  assumes "0 < h_min"
  shows "bandwidth h_min (replicate N theta) = h_min"
proof -
  have "median (concat (map (\<lambda>u. map (\<lambda>v. sqdist u v) (replicate N theta)) (replicate N theta))) = 0"
    by (rule median_zeros) (auto simp: sqdist_self)
  with assms show ?thesis by (simp add: bandwidth_def)
qed

lemma vadd_zeros: "vadd (replicate d 0) (replicate d 0) = replicate d 0"
  by (induction d) (simp_all add: vadd_def)

lemma vsum_zeros: "vsum d (replicate N (replicate d 0)) = replicate d 0"
  by (induction N) (simp_all add: vsum_def vadd_zeros)

lemma scale_zeros: "scale a (replicate d 0) = replicate d 0"
  by (simp add: scale_def)

text \<open>
  C7. In the Stein mode, with a positive minimum bandwidth and \<open>N\<close> identical particles,
  the kernel matrix is defined and all its entries are \<open>1\<close>, the repulsion term of
  every particle is the zero vector, and the corrected gradients are defined. Without
  the clamp (minimum bandwidth \<open>0\<close>) the same particles give a kernel that is not
  finite.
\<close>

theorem identical_particles_kernel:
  assumes "0 < h_min" and "0 < N"
  shows "kernel_matrix h_min (replicate N theta) = Inr (replicate N (replicate N 1)) \<and>
         repulsion h_min (replicate N theta) = Inr (replicate N (replicate (length theta) 0)) \<and>
         (est_mode est = ''svgd'' \<and> length grads = N \<longrightarrow>
            (\<exists>r. corrected_gradients est h_min (replicate N theta) grads = Inr r))"
proof -
  have ne: "replicate N theta \<noteq> []" using assms(2) by simp
  have h: "bandwidth h_min (replicate N theta) = h_min" by (rule bandwidth_identical [OF assms(1)])
  have h0: "h_min \<noteq> 0" using assms(1) by simp
  have k: "rbf h_min theta theta = 1" by (simp add: rbf_def sqdist_self)
  have g: "rbf_grad h_min theta theta = replicate (length theta) 0"
    by (simp add: rbf_grad_def vsub_self scale_zeros)
  have km: "kernel_matrix h_min (replicate N theta) = Inr (replicate N (replicate N 1))"
    using ne h0 by (simp add: kernel_matrix_def h Let_def map_replicate_const k)
  have rp: "repulsion h_min (replicate N theta) = Inr (replicate N (replicate (length theta) 0))"
    using ne h0 by (simp add: repulsion_def h Let_def map_replicate_const g vsum_zeros)
  have "est_mode est = ''svgd'' \<and> length grads = N \<longrightarrow>
            (\<exists>r. corrected_gradients est h_min (replicate N theta) grads = Inr r)"
    using assms(2) by (simp add: corrected_gradients_def km rp)
  with km rp show ?thesis by blast
qed

lemma unclamped_bandwidth_not_finite:
  "0 < N \<Longrightarrow> kernel_matrix 0 (replicate N theta) = Inl KernelNotFinite"
proof -
  assume "0 < N"
  have "median (concat (map (\<lambda>u. map (\<lambda>v. sqdist u v) (replicate N theta)) (replicate N theta))) = 0"
    by (rule median_zeros) (auto simp: sqdist_self)
  then have "bandwidth 0 (replicate N theta) = 0" by (simp add: bandwidth_def)
  with \<open>0 < N\<close> show ?thesis by (simp add: kernel_matrix_def)
qed

theorem identical_particles_kernel_witness:
  "(0 :: real) < 1 / 100 \<and> (0 :: nat) < 3 \<and>
   kernel_matrix (1 / 100) [[1, 2], [1, 2], [1, 2]] = Inr [[1, 1, 1], [1, 1, 1], [1, 1, 1]] \<and>
   repulsion (1 / 100) [[1, 2], [1, 2], [1, 2]] = Inr [[0, 0], [0, 0], [0, 0]]"
proof -
  have h1: "(0 :: real) < 1 / 100" by simp
  have h2: "(0 :: nat) < 3" by simp
  have r: "replicate 3 [1, 2 :: real] = [[1, 2], [1, 2], [1, 2]]"
    "replicate 3 (replicate 3 (1 :: real)) = [[1, 1, 1], [1, 1, 1], [1, 1, 1]]"
    "replicate 3 (replicate (length [1, 2 :: real]) (0 :: real)) = [[0, 0], [0, 0], [0, 0]]"
    by (simp_all add: numeral_3_eq_3 numeral_2_eq_2)
  from identical_particles_kernel [OF h1 h2, of "[1, 2]"] h1 h2 show ?thesis
    unfolding r by blast
qed

end
